theory Spec2Isabelle
  imports Main
begin

section \<open>Python values and exceptions\<close>

text \<open>
  The records returned by \<^verbatim>\<open>response.json()\<close> are arbitrary JSON values.
  A JSON object is an association list from keys to values, read with \<open>map_of\<close>
  (a Python dict has no duplicate key). Numbers are integers here: every operation the
  normalizers apply to a number (subscripting, \<^verbatim>\<open>.get\<close>, iteration, truth test)
  behaves the same for a float.
\<close>

datatype json =
    JNull
  | JBool bool
  | JInt int
  | JStr string
  | JList "json list"
  | JObj "(string \<times> json) list"

datatype py_error =
    KeyError
  | TypeError
  | IndexError
  | AttributeError
  | RequestException
  | ValueError

text \<open>A processed row is a Python dict; its keys keep their insertion order.\<close>

type_synonym row = "(string \<times> json) list"

text \<open>\<^verbatim>\<open>d[k] = v\<close> on a dict: an existing key keeps its place, a new key goes last.\<close>

fun dict_set :: "row \<Rightarrow> string \<Rightarrow> json \<Rightarrow> row" where
  "dict_set [] k v = [(k, v)]"
| "dict_set ((k', v') # r) k v = (if k' = k then (k, v) # r else (k', v') # dict_set r k v)"

text \<open>\<^verbatim>\<open>x[k]\<close> with a string key \<open>k\<close>: KeyError on a dict without the key, TypeError
  on every value that is not a dict (None, numbers and booleans are not subscriptable;
  lists and strings take integer indices only).\<close>

fun subscript :: "json \<Rightarrow> string \<Rightarrow> py_error + json" where
  "subscript (JObj kvs) k = (case map_of kvs k of None \<Rightarrow> Inl KeyError | Some v \<Rightarrow> Inr v)"
| "subscript _ k = Inl TypeError"

text \<open>\<^verbatim>\<open>x[0]\<close>: IndexError on an empty list or string, KeyError on a dict (its keys
  are strings), TypeError on None, numbers and booleans.\<close>

fun index0 :: "json \<Rightarrow> py_error + json" where
  "index0 (JList []) = Inl IndexError"
| "index0 (JList (x # xs)) = Inr x"
| "index0 (JStr []) = Inl IndexError"
| "index0 (JStr (c # cs)) = Inr (JStr [c])"
| "index0 (JObj kvs) = Inl KeyError"
| "index0 _ = Inl TypeError"

text \<open>\<^verbatim>\<open>x.get(k, d)\<close>: only a dict has the method; every other value raises
  AttributeError.\<close>

fun dict_get :: "json \<Rightarrow> string \<Rightarrow> json \<Rightarrow> py_error + json" where
  "dict_get (JObj kvs) k d = (case map_of kvs k of None \<Rightarrow> Inr d | Some v \<Rightarrow> Inr v)"
| "dict_get _ k d = Inl AttributeError"

text \<open>Python's truth test.\<close>

fun truthy :: "json \<Rightarrow> bool" where
  "truthy JNull = False"
| "truthy (JBool b) = b"
| "truthy (JInt n) = (n \<noteq> 0)"
| "truthy (JStr s) = (s \<noteq> [])"
| "truthy (JList xs) = (xs \<noteq> [])"
| "truthy (JObj kvs) = (kvs \<noteq> [])"

text \<open>\<^verbatim>\<open>for item in x\<close>: a list gives its elements, a dict its keys, a string its
  characters; anything else is not iterable (TypeError).\<close>

fun py_iter :: "json \<Rightarrow> py_error + json list" where
  "py_iter (JList xs) = Inr xs"
| "py_iter (JObj kvs) = Inr (map (\<lambda>kv. JStr (fst kv)) kvs)"
| "py_iter (JStr s) = Inr (map (\<lambda>c. JStr [c]) s)"
| "py_iter _ = Inl TypeError"

text \<open>Sequencing of computations that may raise.\<close>

definition bindE :: "py_error + 'a \<Rightarrow> ('a \<Rightarrow> py_error + 'b) \<Rightarrow> py_error + 'b" where
  "bindE c f = (case c of Inl e \<Rightarrow> Inl e | Inr v \<Rightarrow> f v)"

text \<open>
  The block that every normalizer repeats per field:
  \<^verbatim>\<open>
  try:
      item_data[k] = <expr>
  except (E1, E2, ...):
      item_data[k] = None
  \<close>
  An exception outside the listed classes propagates.
\<close>

definition assign_try :: "string \<Rightarrow> py_error list \<Rightarrow> py_error + json \<Rightarrow> row \<Rightarrow> py_error + row" where
  "assign_try k handled c r =
     (case c of
        Inr v \<Rightarrow> Inr (dict_set r k v)
      | Inl e \<Rightarrow> if e \<in> set handled then Inr (dict_set r k JNull) else Inl e)"

text \<open>What a field holds after its block: the extracted value, or None.\<close>

definition value_or_null :: "py_error + json \<Rightarrow> json" where
  "value_or_null c = (case c of Inr v \<Rightarrow> v | Inl e \<Rightarrow> JNull)"

definition raises_only :: "py_error list \<Rightarrow> py_error + 'a \<Rightarrow> bool" where
  "raises_only handled c = (case c of Inr v \<Rightarrow> True | Inl e \<Rightarrow> e \<in> set handled)"

section \<open>Inventory: \<^verbatim>\<open>process_items_data\<close>\<close>

definition items_columns :: "string list" where
  "items_columns =
     [''id'', ''name'', ''initial_quantity'', ''initial_quantity_date'',
      ''final_available_quantity'', ''photo_url'']"

text \<open>The body of the loop of \<^verbatim>\<open>process_items_data\<close>: six field blocks in source order.\<close>

definition item_row :: "json \<Rightarrow> py_error + row" where
  "item_row item =
     bindE (assign_try ''id'' [KeyError, TypeError] (subscript item ''id'') []) (\<lambda>r1.
     bindE (assign_try ''name'' [KeyError, TypeError] (subscript item ''name'') r1) (\<lambda>r2.
     bindE (assign_try ''initial_quantity'' [KeyError, TypeError]
              (bindE (subscript item ''inventory'') (\<lambda>i. subscript i ''initialQuantity'')) r2) (\<lambda>r3.
     bindE (assign_try ''initial_quantity_date'' [KeyError, TypeError]
              (bindE (subscript item ''inventory'') (\<lambda>i. subscript i ''initialQuantityDate'')) r3) (\<lambda>r4.
     bindE (assign_try ''final_available_quantity'' [KeyError, TypeError]
              (bindE (subscript item ''inventory'') (\<lambda>i. subscript i ''availableQuantity'')) r4) (\<lambda>r5.
     assign_try ''photo_url'' [KeyError, TypeError, IndexError]
              (bindE (subscript item ''images'') (\<lambda>im.
               bindE (index0 im) (\<lambda>first. subscript first ''url''))) r5)))))"

text \<open>\<^verbatim>\<open>for item in items: ...; processed_items.append(item_data)\<close>, with the list
  \<^verbatim>\<open>processed_items\<close> as accumulator.\<close>

fun process_items_loop :: "json list \<Rightarrow> row list \<Rightarrow> py_error + row list" where
  "process_items_loop [] processed_items = Inr processed_items"
| "process_items_loop (item # items) processed_items =
     (case item_row item of
        Inl e \<Rightarrow> Inl e
      | Inr item_data \<Rightarrow> process_items_loop items (processed_items @ [item_data]))"

definition process_items_data :: "json list \<Rightarrow> py_error + row list" where
  "process_items_data items = process_items_loop items []"

text \<open>The six extractions of the inventory normalizer, as the source writes them.\<close>

definition item_fields :: "json \<Rightarrow> (py_error + json) list" where
  "item_fields item =
     [subscript item ''id'',
      subscript item ''name'',
      bindE (subscript item ''inventory'') (\<lambda>i. subscript i ''initialQuantity''),
      bindE (subscript item ''inventory'') (\<lambda>i. subscript i ''initialQuantityDate''),
      bindE (subscript item ''inventory'') (\<lambda>i. subscript i ''availableQuantity''),
      bindE (subscript item ''images'') (\<lambda>im. bindE (index0 im) (\<lambda>first. subscript first ''url''))]"

section \<open>Membership test and the loops shared by the nested normalizers\<close>

text \<open>\<^verbatim>\<open>k in x\<close> for a string \<open>k\<close>: key membership on a dict, element membership
  on a list, substring test on a string; TypeError on None, numbers and booleans.\<close>

fun starts_with :: "string \<Rightarrow> string \<Rightarrow> bool" where
  "starts_with s [] = True"
| "starts_with [] (c # k) = False"
| "starts_with (d # s) (c # k) = (d = c \<and> starts_with s k)"

fun is_substring :: "string \<Rightarrow> string \<Rightarrow> bool" where
  "is_substring k [] = (k = [])"
| "is_substring k (d # s) = (starts_with (d # s) k \<or> is_substring k s)"

fun py_in :: "string \<Rightarrow> json \<Rightarrow> py_error + bool" where
  "py_in k (JObj kvs) = Inr (map_of kvs k \<noteq> None)"
| "py_in k (JList xs) = Inr (JStr k \<in> set xs)"
| "py_in k (JStr s) = Inr (is_substring k s)"
| "py_in k _ = Inl TypeError"

text \<open>
  The inner loop shared by the nested normalizers:
  \<^verbatim>\<open>for item in items: item_data = ...; processed_items.append(item_data)\<close>.
  The rows appended before an exception stay in \<^verbatim>\<open>processed_items\<close>, so the loop
  returns the list together with the exception that ended it, if any.
\<close>

fun rows_loop :: "(json \<Rightarrow> py_error + row) \<Rightarrow> json list \<Rightarrow> row list \<Rightarrow> row list \<times> py_error option" where
  "rows_loop body [] processed_items = (processed_items, None)"
| "rows_loop body (item # items) processed_items =
     (case body item of
        Inl e \<Rightarrow> (processed_items, Some e)
      | Inr item_data \<Rightarrow> rows_loop body items (processed_items @ [item_data]))"

text \<open>The outer loop over the records of a batch; an exception that leaves the body of
  the loop leaves the function.\<close>

fun records_loop :: "(json \<Rightarrow> row list \<Rightarrow> py_error + row list) \<Rightarrow> json list \<Rightarrow> row list \<Rightarrow> py_error + row list" where
  "records_loop step [] processed_items = Inr processed_items"
| "records_loop step (record # records) processed_items =
     (case step record processed_items of
        Inl e \<Rightarrow> Inl e
      | Inr processed_items' \<Rightarrow> records_loop step records processed_items')"

text \<open>A loop step only ever appends to \<^verbatim>\<open>processed_items\<close>: what it adds does not
  depend on the rows already there.\<close>

definition append_only :: "(json \<Rightarrow> row list \<Rightarrow> py_error + row list) \<Rightarrow> bool" where
  "append_only step =
     (\<forall>r acc. step r acc = bindE (step r []) (\<lambda>rows. Inr (acc @ rows)))"

text \<open>The rows one record yields: the normalizer applied to the batch of that record
  alone.\<close>

definition record_rows :: "(json list \<Rightarrow> py_error + row list) \<Rightarrow> json \<Rightarrow> row list" where
  "record_rows proc r = (case proc [r] of Inr rows \<Rightarrow> rows | Inl e \<Rightarrow> [])"

fun is_obj :: "json \<Rightarrow> bool" where
  "is_obj (JObj kvs) = True"
| "is_obj _ = False"

section \<open>Warehouse transfers: \<^verbatim>\<open>process_warehouse_transfers_data\<close>\<close>

definition transfer_columns :: "string list" where
  "transfer_columns = [''movement_date'', ''warehouse_origin'', ''warehouse_destination'']"

definition transfer_item_columns :: "string list" where
  "transfer_item_columns = [''item_id'', ''item_name'', ''quantity'']"

text \<open>The three transfer-level blocks that fill \<^verbatim>\<open>transfer_info\<close>.\<close>

definition transfer_info_of :: "json \<Rightarrow> py_error + row" where
  "transfer_info_of transfer =
     bindE (assign_try ''movement_date'' [KeyError, TypeError] (subscript transfer ''date'') []) (\<lambda>r1.
     bindE (assign_try ''warehouse_origin'' [KeyError, TypeError]
              (bindE (subscript transfer ''origin'') (\<lambda>origin. subscript origin ''name'')) r1) (\<lambda>r2.
     assign_try ''warehouse_destination'' [KeyError, TypeError]
              (bindE (subscript transfer ''destination'') (\<lambda>dest. subscript dest ''name'')) r2))"

text \<open>\<^verbatim>\<open>item_data = transfer_info.copy()\<close> followed by the three item-level blocks.\<close>

definition transfer_item_row :: "row \<Rightarrow> json \<Rightarrow> py_error + row" where
  "transfer_item_row transfer_info item =
     bindE (assign_try ''item_id'' [KeyError, TypeError] (subscript item ''id'') transfer_info) (\<lambda>r1.
     bindE (assign_try ''item_name'' [KeyError, TypeError] (subscript item ''name'') r1) (\<lambda>r2.
     assign_try ''quantity'' [KeyError, TypeError] (subscript item ''quantity'') r2))"

text \<open>The body of \<^verbatim>\<open>try: items = transfer["items"]; for item in items: ...\<close>.\<close>

definition transfer_try_items :: "json \<Rightarrow> row \<Rightarrow> row list \<Rightarrow> row list \<times> py_error option" where
  "transfer_try_items transfer transfer_info processed_items =
     (case bindE (subscript transfer ''items'') py_iter of
        Inl e \<Rightarrow> (processed_items, Some e)
      | Inr items \<Rightarrow> rows_loop (transfer_item_row transfer_info) items processed_items)"

text \<open>One iteration of the loop over the transfers, with its handler
  \<^verbatim>\<open>except (KeyError, TypeError): processed_items.append(transfer_info)\<close>.\<close>

definition process_transfer :: "json \<Rightarrow> row list \<Rightarrow> py_error + row list" where
  "process_transfer transfer processed_items =
     bindE (transfer_info_of transfer) (\<lambda>transfer_info.
       case transfer_try_items transfer transfer_info processed_items of
         (processed_items', None) \<Rightarrow> Inr processed_items'
       | (processed_items', Some e) \<Rightarrow>
           if e \<in> set [KeyError, TypeError] then Inr (processed_items' @ [transfer_info])
           else Inl e)"

definition process_warehouse_transfers_data :: "json list \<Rightarrow> py_error + row list" where
  "process_warehouse_transfers_data transfers = records_loop process_transfer transfers []"

text \<open>The extractions of the transfer-level and item-level blocks, as the source writes
  them.\<close>

definition transfer_fields :: "json \<Rightarrow> (py_error + json) list" where
  "transfer_fields transfer =
     [subscript transfer ''date'',
      bindE (subscript transfer ''origin'') (\<lambda>origin. subscript origin ''name''),
      bindE (subscript transfer ''destination'') (\<lambda>dest. subscript dest ''name'')]"

definition transfer_item_fields :: "json \<Rightarrow> (py_error + json) list" where
  "transfer_item_fields item =
     [subscript item ''id'', subscript item ''name'', subscript item ''quantity'']"

section \<open>Purchase orders: \<^verbatim>\<open>process_purchase_orders_data\<close>\<close>

definition purchase_columns :: "string list" where
  "purchase_columns =
     [''invoice_id'', ''added_inventory_date'', ''provider_id'', ''warehouse_name'',
      ''price_provider'', ''quantity'', ''item_id'', ''item_name'']"

text \<open>\<^verbatim>\<open>order.get("warehouse", {}).get("name") if order.get("warehouse") else None\<close>:
  the condition is evaluated first.\<close>

definition order_warehouse_name :: "json \<Rightarrow> py_error + json" where
  "order_warehouse_name order =
     bindE (dict_get order ''warehouse'' JNull) (\<lambda>cond.
       if truthy cond
       then bindE (dict_get order ''warehouse'' (JObj [])) (\<lambda>w. dict_get w ''name'' JNull)
       else Inr JNull)"

text \<open>\<^verbatim>\<open>purchases_items = order.get("purchases", {}).get("items", [])\<close>, replaced by
  \<^verbatim>\<open>order["items"]\<close> when it is falsy and the order has the key \<^verbatim>\<open>"items"\<close>.\<close>

definition order_purchases_items :: "json \<Rightarrow> py_error + json" where
  "order_purchases_items order =
     bindE (bindE (dict_get order ''purchases'' (JObj [])) (\<lambda>p. dict_get p ''items'' (JList []))) (\<lambda>purchases_items.
       if truthy purchases_items then Inr purchases_items
       else bindE (py_in ''items'' order) (\<lambda>has_items.
              if has_items then subscript order ''items'' else Inr purchases_items))"

text \<open>The eight field blocks of one purchase item.\<close>

definition purchase_item_row :: "json \<Rightarrow> json \<Rightarrow> json \<Rightarrow> json \<Rightarrow> py_error + row" where
  "purchase_item_row order_id delivery_date warehouse_name item =
     bindE (assign_try ''invoice_id'' [KeyError, TypeError] (Inr order_id) []) (\<lambda>r1.
     bindE (assign_try ''added_inventory_date'' [KeyError, TypeError] (Inr delivery_date) r1) (\<lambda>r2.
     bindE (assign_try ''provider_id'' [KeyError, TypeError] (Inr order_id) r2) (\<lambda>r3.
     bindE (assign_try ''warehouse_name'' [KeyError, TypeError] (Inr warehouse_name) r3) (\<lambda>r4.
     bindE (assign_try ''price_provider'' [KeyError, TypeError] (dict_get item ''price'' JNull) r4) (\<lambda>r5.
     bindE (assign_try ''quantity'' [KeyError, TypeError] (dict_get item ''quantity'' JNull) r5) (\<lambda>r6.
     bindE (assign_try ''item_id'' [KeyError, TypeError] (dict_get item ''id'' JNull) r6) (\<lambda>r7.
     assign_try ''item_name'' [KeyError, TypeError] (dict_get item ''name'' JNull) r7)))))))"

text \<open>The body of the outer \<^verbatim>\<open>try\<close> of one order.\<close>

definition order_try_block :: "json \<Rightarrow> row list \<Rightarrow> row list \<times> py_error option" where
  "order_try_block order processed_items =
     (case subscript order ''id'' of
        Inl e \<Rightarrow> (processed_items, Some e)
      | Inr order_id \<Rightarrow>
     (case dict_get order ''deliveryDate'' JNull of
        Inl e \<Rightarrow> (processed_items, Some e)
      | Inr delivery_date \<Rightarrow>
     (case order_warehouse_name order of
        Inl e \<Rightarrow> (processed_items, Some e)
      | Inr warehouse_name \<Rightarrow>
     (case bindE (order_purchases_items order) py_iter of
        Inl e \<Rightarrow> (processed_items, Some e)
      | Inr items \<Rightarrow>
          rows_loop (purchase_item_row order_id delivery_date warehouse_name) items
            processed_items))))"

text \<open>One iteration of the loop over the orders. \<^verbatim>\<open>except Exception\<close> catches every
  exception of the body; the handler itself evaluates \<^verbatim>\<open>order.get('id', 'unknown')\<close>
  for the log line and then continues.\<close>

definition process_order :: "json \<Rightarrow> row list \<Rightarrow> py_error + row list" where
  "process_order order processed_items =
     (case order_try_block order processed_items of
        (processed_items', None) \<Rightarrow> Inr processed_items'
      | (processed_items', Some e) \<Rightarrow>
          bindE (dict_get order ''id'' (JStr ''unknown'')) (\<lambda>logged. Inr processed_items'))"

definition process_purchase_orders_data :: "json list \<Rightarrow> py_error + row list" where
  "process_purchase_orders_data orders = records_loop process_order orders []"

text \<open>The row of one purchase item whose \<^verbatim>\<open>.get\<close> calls succeed.\<close>

definition purchase_row :: "json \<Rightarrow> json \<Rightarrow> json \<Rightarrow> json \<Rightarrow> row" where
  "purchase_row order order_id warehouse_name item =
     [(''invoice_id'', order_id),
      (''added_inventory_date'', value_or_null (subscript order ''deliveryDate'')),
      (''provider_id'', order_id),
      (''warehouse_name'', warehouse_name),
      (''price_provider'', value_or_null (subscript item ''price'')),
      (''quantity'', value_or_null (subscript item ''quantity'')),
      (''item_id'', value_or_null (subscript item ''id'')),
      (''item_name'', value_or_null (subscript item ''name''))]"

section \<open>Invoices: \<^verbatim>\<open>process_invoice_data\<close>\<close>

definition invoice_columns :: "string list" where
  "invoice_columns =
     [''factura_id'', ''fecha_venta'', ''item_id'', ''item_name'', ''item_quantity'',
      ''warehouse_name'']"

text \<open>The dict literal built for one invoice item; its values are evaluated in order.\<close>

definition invoice_item_row :: "json \<Rightarrow> json \<Rightarrow> json \<Rightarrow> json \<Rightarrow> py_error + row" where
  "invoice_item_row invoice_id sale_date warehouse_name item =
     bindE (dict_get item ''id'' JNull) (\<lambda>item_id.
     bindE (dict_get item ''name'' JNull) (\<lambda>item_name.
     bindE (dict_get item ''quantity'' JNull) (\<lambda>item_quantity.
     Inr [(''factura_id'', invoice_id), (''fecha_venta'', sale_date), (''item_id'', item_id),
          (''item_name'', item_name), (''item_quantity'', item_quantity),
          (''warehouse_name'', warehouse_name)])))"

text \<open>\<^verbatim>\<open>invoice.get("warehouse", {}).get("name", "Unknown")\<close>.\<close>

definition invoice_warehouse_name :: "json \<Rightarrow> py_error + json" where
  "invoice_warehouse_name invoice =
     bindE (dict_get invoice ''warehouse'' (JObj [])) (\<lambda>w. dict_get w ''name'' (JStr ''Unknown''))"

definition invoice_try_block :: "json \<Rightarrow> row list \<Rightarrow> row list \<times> py_error option" where
  "invoice_try_block invoice processed_items =
     (case dict_get invoice ''id'' JNull of
        Inl e \<Rightarrow> (processed_items, Some e)
      | Inr invoice_id \<Rightarrow>
     (case dict_get invoice ''date'' JNull of
        Inl e \<Rightarrow> (processed_items, Some e)
      | Inr sale_date \<Rightarrow>
     (case dict_get invoice ''items'' (JList []) of
        Inl e \<Rightarrow> (processed_items, Some e)
      | Inr items \<Rightarrow>
     (case invoice_warehouse_name invoice of
        Inl e \<Rightarrow> (processed_items, Some e)
      | Inr warehouse_name \<Rightarrow>
     (case py_iter items of
        Inl e \<Rightarrow> (processed_items, Some e)
      | Inr its \<Rightarrow>
          rows_loop (invoice_item_row invoice_id sale_date warehouse_name) its
            processed_items)))))"

text \<open>One iteration of the loop over the invoices. The handler is
  \<^verbatim>\<open>except (KeyError, TypeError)\<close>: it logs with \<^verbatim>\<open>invoice.get('id', 'Unknown')\<close> and
  continues; any other exception leaves \<^verbatim>\<open>process_invoice_data\<close>.\<close>

definition process_invoice :: "json \<Rightarrow> row list \<Rightarrow> py_error + row list" where
  "process_invoice invoice processed_items =
     (case invoice_try_block invoice processed_items of
        (processed_items', None) \<Rightarrow> Inr processed_items'
      | (processed_items', Some e) \<Rightarrow>
          if e \<in> set [KeyError, TypeError]
          then bindE (dict_get invoice ''id'' (JStr ''Unknown'')) (\<lambda>logged. Inr processed_items')
          else Inl e)"

definition process_invoice_data :: "json list \<Rightarrow> py_error + row list" where
  "process_invoice_data invoices = records_loop process_invoice invoices []"

text \<open>The row of one invoice item whose \<^verbatim>\<open>.get\<close> calls succeed.\<close>

definition invoice_row :: "json \<Rightarrow> json \<Rightarrow> json \<Rightarrow> row" where
  "invoice_row invoice warehouse_name item =
     [(''factura_id'', value_or_null (subscript invoice ''id'')),
      (''fecha_venta'', value_or_null (subscript invoice ''date'')),
      (''item_id'', value_or_null (subscript item ''id'')),
      (''item_name'', value_or_null (subscript item ''name'')),
      (''item_quantity'', value_or_null (subscript item ''quantity'')),
      (''warehouse_name'', warehouse_name)]"

section \<open>The artifact: \<^verbatim>\<open>save_batch_to_csv\<close>\<close>

text \<open>
  The CSV file is a list of lines, a header line or a data line. \<^verbatim>\<open>pd.DataFrame(data)\<close>
  on a list of dicts takes as columns the keys of the dicts in the order of their first
  appearance, and fills a key that a dict lacks with NaN (null here); \<^verbatim>\<open>to_csv\<close> writes the
  header line when \<^verbatim>\<open>header\<close> is true and one data line per row, truncating the file in
  mode \<^verbatim>\<open>'w'\<close> and appending to it in mode \<^verbatim>\<open>'a'\<close>. Writing is taken to succeed.
\<close>

datatype csv_line = Header "string list" | Record "json list"

fun add_columns :: "string list \<Rightarrow> string list \<Rightarrow> string list" where
  "add_columns cols [] = cols"
| "add_columns cols (k # ks) = add_columns (if k \<in> set cols then cols else cols @ [k]) ks"

definition df_columns :: "row list \<Rightarrow> string list" where
  "df_columns data = foldl (\<lambda>cols r. add_columns cols (map fst r)) [] data"

definition df_cells :: "string list \<Rightarrow> row \<Rightarrow> json list" where
  "df_cells cols r = map (\<lambda>c. case map_of r c of None \<Rightarrow> JNull | Some v \<Rightarrow> v) cols"

definition save_batch_to_csv :: "row list \<Rightarrow> csv_line list \<Rightarrow> bool \<Rightarrow> csv_line list" where
  "save_batch_to_csv data file is_first_batch =
     (let cols = df_columns data;
          lines = map (\<lambda>r. Record (df_cells cols r)) data
      in if is_first_batch then Header cols # lines else file @ lines)"

text \<open>The header invariant of the file: its first line is the header of the given columns
  and no other line is a header.\<close>

fun is_record :: "csv_line \<Rightarrow> bool" where
  "is_record (Record cells) = True"
| "is_record (Header cols) = False"

definition header_once :: "string list \<Rightarrow> csv_line list \<Rightarrow> bool" where
  "header_once cols lines = (case lines of [] \<Rightarrow> False | l # ls \<Rightarrow> l = Header cols \<and> list_all is_record ls)"

section \<open>The pagination loop: \<^verbatim>\<open>fetch_purchase_orders_data\<close> and its three siblings\<close>

definition BATCH_SIZE :: nat where
  "BATCH_SIZE = 30"

text \<open>
  What one \<^verbatim>\<open>requests.get\<close> with the parameter \<^verbatim>\<open>start\<close> gives: an exception
  (\<^verbatim>\<open>raise_for_status\<close> or \<^verbatim>\<open>response.json()\<close> raised), or the decoded page, a list of
  records. The source API is a function from \<^verbatim>\<open>start\<close> to such a response.
\<close>

datatype response = Failed py_error | Page "json list"

text \<open>The state of a run: the list \<^verbatim>\<open>all_orders\<close>, the offset \<^verbatim>\<open>start\<close>, the
  \<^verbatim>\<open>start\<close> parameters of the requests issued so far, and the lines of the output file.\<close>

record run_state =
  all_records :: "json list"
  start :: nat
  requests :: "nat list"
  artifact :: "csv_line list"

text \<open>
  The \<^verbatim>\<open>while True\<close> loop, the same in the four extraction scripts but for the normalizer
  it calls. It need not end (a source may return full pages for ever), so it is a partial
  function: \<open>None\<close> is a run that does not return. A run that returns gives the exception
  that ended it, if any (both handlers re-raise), and the final state.
\<close>

partial_function (option) fetch_loop ::
  "(json list \<Rightarrow> py_error + row list) \<Rightarrow> (nat \<Rightarrow> response) \<Rightarrow> run_state \<Rightarrow> (py_error option \<times> run_state) option" where
  "fetch_loop process api s =
     (let s1 = s\<lparr>requests := requests s @ [start s]\<rparr> in
      (case api (start s) of
         Failed e \<Rightarrow> Some (Some e, s1)
       | Page batch_data \<Rightarrow>
           (if batch_data = [] then Some (None, s1)
            else
              (let s2 = s1\<lparr>all_records := all_records s1 @ batch_data\<rparr> in
               (case process batch_data of
                  Inl e \<Rightarrow> Some (Some e, s2)
                | Inr processed_batch \<Rightarrow>
                    (let s3 = (if processed_batch \<noteq> []
                               then s2\<lparr>artifact := save_batch_to_csv processed_batch (artifact s2) (start s2 = 0)\<rparr>
                               else s2)
                     in (if length batch_data < BATCH_SIZE then Some (None, s3)
                         else fetch_loop process api (s3\<lparr>start := start s3 + BATCH_SIZE\<rparr>))))))))"

declare fetch_loop.simps [code]

text \<open>A run starts at offset 0 with whatever the output file holds from before.\<close>

definition initial_state :: "csv_line list \<Rightarrow> run_state" where
  "initial_state file = \<lparr>all_records = [], start = 0, requests = [], artifact = file\<rparr>"

definition fetch_purchase_orders_data :: "(nat \<Rightarrow> response) \<Rightarrow> csv_line list \<Rightarrow> (py_error option \<times> run_state) option" where
  "fetch_purchase_orders_data api file = fetch_loop process_purchase_orders_data api (initial_state file)"

definition fetch_warehouse_transfers_data :: "(nat \<Rightarrow> response) \<Rightarrow> csv_line list \<Rightarrow> (py_error option \<times> run_state) option" where
  "fetch_warehouse_transfers_data api file = fetch_loop process_warehouse_transfers_data api (initial_state file)"

definition fetch_invoice_data :: "(nat \<Rightarrow> response) \<Rightarrow> csv_line list \<Rightarrow> (py_error option \<times> run_state) option" where
  "fetch_invoice_data api file = fetch_loop process_invoice_data api (initial_state file)"

definition fetch_items_data :: "(nat \<Rightarrow> response) \<Rightarrow> csv_line list \<Rightarrow> (py_error option \<times> run_state) option" where
  "fetch_items_data api file = fetch_loop process_items_data api (initial_state file)"


definition empty_orders_then_one :: "nat \<Rightarrow> response" where
  "empty_orders_then_one offset =
     (if offset = 0 then Page (replicate 30 (JObj [(''id'', JInt 1), (''items'', JList [])]))
      else if offset = 30
        then Page [JObj [(''id'', JInt 2), (''items'', JList [JObj [(''id'', JInt 5)]])]]
      else Page [])"

section \<open>The loader: \<^verbatim>\<open>BigQueryCSVUploader\<close>\<close>

text \<open>\<^verbatim>\<open>s.split(sep)\<close> with a one-character separator: one more part than there are
  separators in \<open>s\<close>, empty parts included.\<close>

fun split_on :: "char \<Rightarrow> string \<Rightarrow> string list" where
  "split_on sep [] = [[]]"
| "split_on sep (c # cs) =
     (if c = sep then [] # split_on sep cs
      else (case split_on sep cs of [] \<Rightarrow> [[c]] | p # ps \<Rightarrow> (c # p) # ps))"

text \<open>\<^verbatim>\<open>s.lower()\<close> on ASCII letters. The keys of the registry are ASCII and hold no
  \<^verbatim>\<open>k\<close>, so no string with a character outside ASCII lowers to one of them.\<close>

definition lower_char :: "char \<Rightarrow> char" where
  "lower_char c =
     (case map_of (zip ''ABCDEFGHIJKLMNOPQRSTUVWXYZ'' ''abcdefghijklmnopqrstuvwxyz'') c of
        None \<Rightarrow> c | Some l \<Rightarrow> l)"

definition lower :: "string \<Rightarrow> string" where
  "lower s = map lower_char s"

text \<open>A schema is a list of \<^verbatim>\<open>SchemaField(name, type)\<close>. The registry of
  \<^verbatim>\<open>get_predefined_schema\<close> is the dict \<^verbatim>\<open>schemas\<close>, read with the lowered table name.\<close>

type_synonym schema = "(string \<times> string) list"

definition schemas :: "(string \<times> schema) list" where
  "schemas =
     [(''warehouse_movements'',
         [(''movement_date'', ''DATE''), (''warehouse_origin'', ''STRING''),
          (''warehouse_destination'', ''STRING''), (''item_id'', ''INTEGER''),
          (''item_name'', ''STRING''), (''quantity'', ''INTEGER'')]),
      (''inventory'',
         [(''item_id'', ''INTEGER''), (''item_name'', ''STRING''), (''warehouse'', ''STRING''),
          (''quantity'', ''INTEGER''), (''last_updated'', ''TIMESTAMP'')]),
      (''sales'',
         [(''sale_date'', ''DATE''), (''item_id'', ''INTEGER''), (''item_name'', ''STRING''),
          (''quantity'', ''INTEGER''), (''unit_price'', ''FLOAT''), (''total_amount'', ''FLOAT'')]),
      (''purchases'',
         [(''purchase_date'', ''DATE''), (''item_id'', ''INTEGER''), (''item_name'', ''STRING''),
          (''quantity'', ''INTEGER''), (''unit_cost'', ''FLOAT''), (''total_cost'', ''FLOAT''),
          (''supplier'', ''STRING'')])]"

definition get_predefined_schema :: "string \<Rightarrow> schema option" where
  "get_predefined_schema table_name = map_of schemas (lower table_name)"

text \<open>\<^verbatim>\<open>infer_schema_from_csv\<close>: the sample read by \<^verbatim>\<open>pd.read_csv\<close> gives each column a
  dtype (or reading raises, \<open>None\<close> here, and the function returns the empty list); the
  chain of \<^verbatim>\<open>is_..._dtype\<close> tests maps the dtype to a field type.\<close>

datatype dtype = IntegerDtype | FloatDtype | BoolDtype | DatetimeDtype | ObjectDtype

fun field_type :: "dtype \<Rightarrow> string" where
  "field_type IntegerDtype = ''INTEGER''"
| "field_type FloatDtype = ''FLOAT''"
| "field_type BoolDtype = ''BOOLEAN''"
| "field_type DatetimeDtype = ''TIMESTAMP''"
| "field_type ObjectDtype = ''STRING''"

definition infer_schema_from_csv :: "(string \<times> dtype) list option \<Rightarrow> schema" where
  "infer_schema_from_csv df_sample =
     (case df_sample of
        None \<Rightarrow> []
      | Some dtypes \<Rightarrow> map (\<lambda>(column, dtype). (column, field_type dtype)) dtypes)"

text \<open>The \<^verbatim>\<open>LoadJobConfig\<close> the loader submits (the source format is always CSV).\<close>

record job_config =
  skip_leading_rows :: nat
  field_delimiter :: string
  encoding :: string
  write_disposition :: string
  autodetect :: bool
  job_schema :: "schema option"

text \<open>
  The world outside the loader: the local files, and what each call of the BigQuery
  client answers (\<^verbatim>\<open>get_dataset\<close> finds the dataset, raises NotFound or raises something
  else; \<^verbatim>\<open>create_dataset\<close> succeeds or raises; the load job completes, raises BadRequest
  or raises something else; \<^verbatim>\<open>get_table\<close> succeeds or raises). Every call the loader makes
  to the client is recorded, in order, in a list of network calls.
\<close>

datatype lookup = Found | NotFound | LookupError

datatype job_outcome = JobDone | JobBadRequest | JobError

datatype net_call =
    GetDataset string
  | CreateDataset string
  | LoadTableFromFile string "string \<times> string \<times> string" job_config
  | GetTable "string \<times> string \<times> string"

record cloud =
  file_exists :: "string \<Rightarrow> bool"
  read_csv_dtypes :: "string \<Rightarrow> (string \<times> dtype) list option"
  client_project :: string
  get_dataset :: "string \<Rightarrow> lookup"
  create_dataset :: "string \<Rightarrow> bool"
  load_table_from_file :: "string \<Rightarrow> string \<times> string \<times> string \<Rightarrow> job_config \<Rightarrow> job_outcome"
  get_table :: "string \<times> string \<times> string \<Rightarrow> bool"

text \<open>\<^verbatim>\<open>create_dataset_if_not_exists\<close>: whether it returned (an exception other than
  NotFound leaves it), and the calls it made.\<close>

definition create_dataset_if_not_exists :: "cloud \<Rightarrow> string \<Rightarrow> bool \<times> net_call list" where
  "create_dataset_if_not_exists env dataset_id =
     (let dataset_ref = client_project env @ ''.'' @ dataset_id in
      (case get_dataset env dataset_ref of
         Found \<Rightarrow> (True, [GetDataset dataset_ref])
       | NotFound \<Rightarrow> (create_dataset env dataset_ref, [GetDataset dataset_ref, CreateDataset dataset_ref])
       | LookupError \<Rightarrow> (False, [GetDataset dataset_ref])))"

text \<open>
  The block \<^verbatim>\<open># Determine schema\<close> of \<^verbatim>\<open>upload_csv_to_table\<close>. The result \<open>None\<close> is the
  \<^verbatim>\<open>return False\<close> of the block (no schema could be inferred); \<open>Some schema\<close> is the value
  of the variable \<^verbatim>\<open>schema\<close> after it, which is \<open>None\<close> when the warehouse is to detect the
  schema.
\<close>

definition determine_schema :: "cloud \<Rightarrow> string \<Rightarrow> string \<Rightarrow> schema option \<Rightarrow> bool \<Rightarrow> schema option option" where
  "determine_schema env csv_file table_name schema auto_detect_schema =
     (case schema of
        Some given \<Rightarrow> Some (Some given)
      | None \<Rightarrow>
          (case get_predefined_schema table_name of
             Some registered \<Rightarrow> Some (Some registered)
           | None \<Rightarrow>
               (if \<not> auto_detect_schema
                then (let inferred = infer_schema_from_csv (read_csv_dtypes env csv_file)
                      in if inferred = [] then None else Some (Some inferred))
                else Some None)))"

text \<open>
  \<open>load_config\<close> is the \<^verbatim>\<open>LoadJobConfig\<close> of the block \<^verbatim>\<open># Configure job\<close>:
  \<^verbatim>\<open>autodetect=auto_detect_schema and schema is None\<close> and
  \<^verbatim>\<open>schema=schema if schema else None\<close>.
  \<^verbatim>\<open>upload_csv_to_table\<close> returns a boolean; the outcome names the \<^verbatim>\<open>return\<close> that gave
  it (each prints its own message), and \<open>returned_value\<close> is the boolean. The two
  \<^verbatim>\<open>except\<close> clauses catch every exception of the body, so the method never raises.
\<close>

datatype upload_outcome =
    FileMissing | InvalidTableId | NoSchema | BadRequestError | OtherError | Uploaded

definition returned_value :: "upload_outcome \<Rightarrow> bool" where
  "returned_value outcome = (outcome = Uploaded)"

definition load_config :: "string \<Rightarrow> schema option \<Rightarrow> bool \<Rightarrow> nat \<Rightarrow> string \<Rightarrow> string \<Rightarrow> job_config" where
  "load_config write_disp schema auto_detect_schema skip_rows delimiter enc =
     \<lparr>skip_leading_rows = skip_rows, field_delimiter = delimiter, encoding = enc,
      write_disposition = write_disp,
      autodetect = (auto_detect_schema \<and> schema = None),
      job_schema = (case schema of None \<Rightarrow> None
                    | Some sch \<Rightarrow> if sch \<noteq> [] then Some sch else None)\<rparr>"

definition upload_csv_to_table ::
  "cloud \<Rightarrow> string \<Rightarrow> string \<Rightarrow> string \<Rightarrow> schema option \<Rightarrow> bool \<Rightarrow> nat \<Rightarrow> string \<Rightarrow> string
     \<Rightarrow> upload_outcome \<times> net_call list" where
  "upload_csv_to_table env csv_file table_id write_disp schema auto_detect_schema skip_rows delimiter enc =
     (if \<not> file_exists env csv_file then (FileMissing, [])
      else
        (case split_on CHR ''.'' table_id of
           [project_id, dataset_id, table_name] \<Rightarrow>
             (case create_dataset_if_not_exists env dataset_id of
                (False, calls) \<Rightarrow> (OtherError, calls)
              | (True, calls) \<Rightarrow>
                  (let table_ref = (project_id, dataset_id, table_name) in
                   (case determine_schema env csv_file table_name schema auto_detect_schema of
                      None \<Rightarrow> (NoSchema, calls)
                    | Some schema' \<Rightarrow>
                        (let config = load_config write_disp schema' auto_detect_schema skip_rows
                                        delimiter enc;
                             calls' = calls @ [LoadTableFromFile csv_file table_ref config]
                         in (case load_table_from_file env csv_file table_ref config of
                               JobBadRequest \<Rightarrow> (BadRequestError, calls')
                             | JobError \<Rightarrow> (OtherError, calls')
                             | JobDone \<Rightarrow>
                                 (if get_table env table_ref
                                  then (Uploaded, calls' @ [GetTable table_ref])
                                  else (OtherError, calls' @ [GetTable table_ref])))))))
         | _ \<Rightarrow> (InvalidTableId, [])))"

text \<open>The load jobs among the calls made.\<close>

fun job_of :: "net_call \<Rightarrow> job_config option" where
  "job_of (LoadTableFromFile csv_file table_ref config) = Some config"
| "job_of _ = None"

definition submitted_jobs :: "net_call list \<Rightarrow> job_config list" where
  "submitted_jobs calls = List.map_filter job_of calls"

section \<open>The batch coordinator: \<^verbatim>\<open>batch_upload_csvs\<close>\<close>

text \<open>The values of \<^verbatim>\<open>config.py\<close>.\<close>

definition PROJECT_ID :: string where "PROJECT_ID = ''your-project-id''"
definition DATASET_ID :: string where "DATASET_ID = ''optistock''"
definition DEFAULT_WRITE_DISPOSITION :: string where "DEFAULT_WRITE_DISPOSITION = ''WRITE_APPEND''"

definition TABLE_MAPPING :: "(string \<times> string) list" where
  "TABLE_MAPPING =
     [(''warehouse_movements.csv'', ''warehouse_movements''),
      (''items_inventory.csv'', ''inventory''),
      (''purchase_orders.csv'', ''purchases''),
      (''factura_items.csv'', ''sales'')]"

text \<open>
  What one call of \<^verbatim>\<open>uploader.upload_csv_to_table\<close> does inside the \<^verbatim>\<open>try\<close> of the loop:
  it returns a boolean or raises. The loop keeps \<^verbatim>\<open>success_count\<close> and \<^verbatim>\<open>total_files\<close>
  and prints one outcome per entity, recorded here as a list of reports. The table
  summary printed after a successful upload does not change the counters.
\<close>

datatype upload_return = Raised | Returned bool

datatype entity_report = Skipped | UploadSucceeded | UploadFailed | UploadRaised

record batch_state =
  success_count :: nat
  total_files :: nat
  reports :: "(string \<times> entity_report) list"

fun report_of :: "upload_return \<Rightarrow> entity_report" where
  "report_of (Returned True) = UploadSucceeded"
| "report_of (Returned False) = UploadFailed"
| "report_of Raised = UploadRaised"

fun upload_entities ::
  "(string \<Rightarrow> bool) \<Rightarrow> ('w \<Rightarrow> string \<Rightarrow> string \<Rightarrow> upload_return \<times> 'w) \<Rightarrow> (string \<times> string) list
     \<Rightarrow> 'w \<Rightarrow> batch_state \<Rightarrow> batch_state \<times> 'w" where
  "upload_entities ex up [] w st = (st, w)"
| "upload_entities ex up ((csv_file, table_name) # rest) w st =
     (let st1 = st\<lparr>total_files := total_files st + 1\<rparr> in
      if \<not> ex csv_file
      then upload_entities ex up rest w (st1\<lparr>reports := reports st1 @ [(csv_file, Skipped)]\<rparr>)
      else
        (let table_id = PROJECT_ID @ ''.'' @ DATASET_ID @ ''.'' @ table_name;
             (success, w') = up w csv_file table_id;
             st2 = (if success = Returned True
                    then st1\<lparr>success_count := success_count st1 + 1\<rparr> else st1)
         in upload_entities ex up rest w'
              (st2\<lparr>reports := reports st2 @ [(csv_file, report_of success)]\<rparr>)))"

text \<open>
  \<^verbatim>\<open>batch_upload_csvs\<close>. When the client cannot be initialized the constructor calls
  \<^verbatim>\<open>sys.exit(1)\<close>, which \<^verbatim>\<open>except Exception\<close> does not catch: the process exits, \<open>None\<close>
  here. Otherwise the function returns \<^verbatim>\<open>success_count > 0\<close>; the listing of the dataset
  that it prints before \<^verbatim>\<open>return True\<close> is taken not to raise (both helpers it calls catch
  every exception).
\<close>

definition batch_upload_csvs ::
  "bool \<Rightarrow> (string \<Rightarrow> bool) \<Rightarrow> ('w \<Rightarrow> string \<Rightarrow> string \<Rightarrow> upload_return \<times> 'w) \<Rightarrow> 'w
     \<Rightarrow> (bool \<times> batch_state \<times> 'w) option" where
  "batch_upload_csvs init_ok ex up w =
     (if \<not> init_ok then None
      else
        (let (st, w') = upload_entities ex up TABLE_MAPPING w
                          \<lparr>success_count = 0, total_files = 0, reports = []\<rparr>
         in Some (0 < success_count st, st, w')))"

text \<open>The call the coordinator makes, on the loader above: default write disposition,
  no explicit schema, \<^verbatim>\<open>auto_detect_schema=True\<close> and the defaults of the other
  parameters.\<close>

definition uploader_call :: "cloud \<Rightarrow> string \<Rightarrow> string \<Rightarrow> upload_return \<times> cloud" where
  "uploader_call env csv_file table_id =
     (Returned (returned_value (fst (upload_csv_to_table env csv_file table_id
        DEFAULT_WRITE_DISPOSITION None True 1 '','' ''UTF-8''))), env)"

text \<open>Two worlds used below: one where every file exists and every call succeeds, and
  one where the inventory file is missing and the load of the movements file is
  rejected.\<close>

definition demo_cloud :: cloud where
  "demo_cloud =
     \<lparr>file_exists = (\<lambda>f. True), read_csv_dtypes = (\<lambda>f. Some [(''a'', IntegerDtype)]),
      client_project = ''proj'', get_dataset = (\<lambda>d. Found), create_dataset = (\<lambda>d. True),
      load_table_from_file = (\<lambda>f t c. JobDone), get_table = (\<lambda>t. True)\<rparr>"

definition partly_failing_cloud :: cloud where
  "partly_failing_cloud =
     \<lparr>file_exists = (\<lambda>f. f \<noteq> ''items_inventory.csv''),
      read_csv_dtypes = (\<lambda>f. None),
      client_project = ''your-project-id'', get_dataset = (\<lambda>d. Found), create_dataset = (\<lambda>d. True),
      load_table_from_file = (\<lambda>f t c. if f = ''warehouse_movements.csv'' then JobBadRequest else JobDone),
      get_table = (\<lambda>t. True)\<rparr>"

text \<open>The table identifier the loop builds for a table name:
  \<^verbatim>\<open>f"{PROJECT_ID}.{DATASET_ID}.{table_name}"\<close>.\<close>

definition table_id_of :: "string \<Rightarrow> string" where
  "table_id_of table_name = PROJECT_ID @ ''.'' @ DATASET_ID @ ''.'' @ table_name"

text \<open>An uploader used below to exercise the three outcomes of a call: it raises for the
  movements file, returns False for the purchases file and True otherwise; the world it
  threads is the number of calls made so far. With it, a file system where only the
  inventory file is missing.\<close>

definition flaky_uploader :: "nat \<Rightarrow> string \<Rightarrow> string \<Rightarrow> upload_return \<times> nat" where
  "flaky_uploader calls csv_file table_id =
     (if csv_file = ''warehouse_movements.csv'' then Raised
      else if csv_file = ''purchase_orders.csv'' then Returned False
      else Returned True,
      Suc calls)"

definition all_but_inventory :: "string \<Rightarrow> bool" where
  "all_but_inventory csv_file = (csv_file \<noteq> ''items_inventory.csv'')"

section \<open>The load job in the warehouse\<close>

text \<open>
  Modelled from the spec: the execution of a load job by the warehouse, which is the
  BigQuery service and not code of this repository (the loader only submits the job and
  waits for it). Section 4.6 of the specification: the write disposition \<^verbatim>\<open>APPEND\<close> adds
  rows, \<^verbatim>\<open>TRUNCATE\<close> replaces all existing rows, \<^verbatim>\<open>EMPTY\<close> fails if the table is already
  non-empty; the job fails on malformed rows, schema mismatches, or disposition
  violations. \<open>run_load_job accepted disposition n r\<close> is the reply of the service and the
  row count of the table after the job, for a table of \<open>n\<close> rows and an artifact of \<open>r\<close>
  data rows; \<open>accepted\<close> says that the rows are well formed and match the schema. The
  dispositions are written as the loader passes them (\<^verbatim>\<open>WRITE_APPEND\<close>, \<^verbatim>\<open>WRITE_TRUNCATE\<close>,
  \<^verbatim>\<open>WRITE_EMPTY\<close>); any other string is a disposition violation. A failed job leaves the
  table as it was.
\<close>

definition run_load_job :: "bool \<Rightarrow> string \<Rightarrow> nat \<Rightarrow> nat \<Rightarrow> job_outcome \<times> nat" where
  "run_load_job accepted disposition n r =
     (if \<not> accepted then (JobBadRequest, n)
      else if disposition = ''WRITE_APPEND'' then (JobDone, n + r)
      else if disposition = ''WRITE_TRUNCATE'' then (JobDone, r)
      else if disposition = ''WRITE_EMPTY'' then (if n = 0 then (JobDone, r) else (JobBadRequest, n))
      else (JobBadRequest, n))"

text \<open>
  Modelled from the spec: the warehouse as the loader meets it. \<open>services\<close> answers every
  call but the load job; \<open>rows_accepted\<close> says whether the rows of an artifact are well
  formed and match the schema of a job; \<open>artifact_rows\<close> is the number of data rows of an
  artifact and \<open>table_rows\<close> the row count of each table.
\<close>

record warehouse =
  services :: cloud
  rows_accepted :: "string \<Rightarrow> job_config \<Rightarrow> bool"
  artifact_rows :: "string \<Rightarrow> nat"
  table_rows :: "string \<times> string \<times> string \<Rightarrow> nat"

text \<open>Modelled from the spec: the client of a warehouse, whose load job is answered by
  \<open>run_load_job\<close> on the current row count of the table.\<close>

definition warehouse_cloud :: "warehouse \<Rightarrow> cloud" where
  "warehouse_cloud wh =
     (services wh)\<lparr>load_table_from_file :=
        (\<lambda>csv_file table_ref config.
           fst (run_load_job (rows_accepted wh csv_file config) (write_disposition config)
                  (table_rows wh table_ref) (artifact_rows wh csv_file)))\<rparr>"

text \<open>Modelled from the spec: the effect of one call of the client on the row counts.
  Only a load job changes a table.\<close>

fun apply_call ::
  "warehouse \<Rightarrow> net_call \<Rightarrow> (string \<times> string \<times> string \<Rightarrow> nat) \<Rightarrow> (string \<times> string \<times> string \<Rightarrow> nat)" where
  "apply_call wh (LoadTableFromFile csv_file table_ref config) rows =
     rows(table_ref := snd (run_load_job (rows_accepted wh csv_file config) (write_disposition config)
                              (rows table_ref) (artifact_rows wh csv_file)))"
| "apply_call wh (GetDataset dataset_ref) rows = rows"
| "apply_call wh (CreateDataset dataset_ref) rows = rows"
| "apply_call wh (GetTable table_ref) rows = rows"

text \<open>One call of \<^verbatim>\<open>upload_csv_to_table\<close> against a warehouse: what the method returned,
  and the warehouse after the calls it made.\<close>

definition load_artifact ::
  "warehouse \<Rightarrow> string \<Rightarrow> string \<Rightarrow> string \<Rightarrow> schema option \<Rightarrow> bool \<Rightarrow> nat \<Rightarrow> string \<Rightarrow> string
     \<Rightarrow> upload_outcome \<times> warehouse" where
  "load_artifact wh csv_file table_id write_disp schema auto_detect_schema skip_rows delimiter enc =
     (let (outcome, calls) = upload_csv_to_table (warehouse_cloud wh) csv_file table_id write_disp
                               schema auto_detect_schema skip_rows delimiter enc
      in (outcome, wh\<lparr>table_rows := fold (apply_call wh) calls (table_rows wh)\<rparr>))"

text \<open>A warehouse whose table \<^verbatim>\<open>proj.optistock.sales\<close> holds five rows, and where every
  artifact has three data rows, all accepted.\<close>

definition demo_warehouse :: warehouse where
  "demo_warehouse =
     \<lparr>services = demo_cloud, rows_accepted = (\<lambda>csv_file config. True),
      artifact_rows = (\<lambda>csv_file. 3),
      table_rows = (\<lambda>table_ref. if table_ref = (''proj'', ''optistock'', ''sales'') then 5 else 0)\<rparr>"

section \<open>Properties of the primitives\<close>

lemma subscript_raises: "raises_only [KeyError, TypeError] (subscript x k)"
  by (cases x) (auto simp: raises_only_def split: option.splits)

lemma subscript2_raises:
  "raises_only [KeyError, TypeError] (bindE (subscript x k) (\<lambda>i. subscript i k'))"
proof (cases "subscript x k")
  case (Inl e)
  with subscript_raises [of x k] show ?thesis
    by (simp add: bindE_def raises_only_def)
next
  case (Inr v)
  with subscript_raises [of v k'] show ?thesis
    by (simp add: bindE_def)
qed

lemma index0_raises: "raises_only [KeyError, TypeError, IndexError] (index0 x)"
proof (cases x)
  case (JStr s)
  then show ?thesis by (cases s) (simp_all add: raises_only_def)
next
  case (JList xs)
  then show ?thesis by (cases xs) (simp_all add: raises_only_def)
qed (simp_all add: raises_only_def)

lemma photo_url_raises:
  "raises_only [KeyError, TypeError, IndexError]
     (bindE (subscript x k) (\<lambda>im. bindE (index0 im) (\<lambda>first. subscript first k')))"
proof (cases "subscript x k")
  case (Inl e)
  with subscript_raises [of x k] show ?thesis
    by (auto simp: bindE_def raises_only_def)
next
  case outer: (Inr im)
  show ?thesis
  proof (cases "index0 im")
    case (Inl e)
    with outer index0_raises [of im] show ?thesis
      by (simp add: bindE_def raises_only_def)
  next
    case (Inr first)
    with outer subscript_raises [of first k'] show ?thesis
      by (auto simp: bindE_def raises_only_def split: sum.splits)
  qed
qed

lemma assign_try_handled:
  "raises_only handled c \<Longrightarrow> assign_try k handled c r = Inr (dict_set r k (value_or_null c))"
  by (cases c) (simp_all add: assign_try_def raises_only_def value_or_null_def)

lemma all_less_two: "(\<forall>i < Suc (Suc 0). P i) = (P 0 \<and> P (Suc 0))"
  by (auto simp: less_Suc_eq)

lemma bindE_Inr: "bindE (Inr v) f = f v"
  by (simp add: bindE_def)

lemma bindE_Inl: "bindE (Inl e) f = Inl e"
  by (simp add: bindE_def)

lemma item_row_eq:
  "item_row item =
     Inr [(''id'', value_or_null (item_fields item ! 0)),
          (''name'', value_or_null (item_fields item ! 1)),
          (''initial_quantity'', value_or_null (item_fields item ! 2)),
          (''initial_quantity_date'', value_or_null (item_fields item ! 3)),
          (''final_available_quantity'', value_or_null (item_fields item ! 4)),
          (''photo_url'', value_or_null (item_fields item ! 5))]"
  unfolding item_row_def item_fields_def
  by (simp add: assign_try_handled subscript_raises subscript2_raises photo_url_raises bindE_Inr)

lemma process_items_loop_eq:
  "process_items_loop items acc = Inr (acc @ map (\<lambda>item. projr (item_row item)) items)"
proof (induction items arbitrary: acc)
  case Nil
  show ?case by simp
next
  case (Cons item items)
  show ?case by (simp add: Cons.IH item_row_eq)
qed

section \<open>Properties of the loops\<close>

lemma rows_loop_acc:
  "rows_loop body items acc = (acc @ fst (rows_loop body items []), snd (rows_loop body items []))"
proof (induction items arbitrary: acc)
  case Nil
  show ?case by simp
next
  case (Cons item items)
  show ?case
  proof (cases "body item")
    case (Inl e)
    then show ?thesis by simp
  next
    case (Inr r)
    have "rows_loop body items (acc @ [r]) = ((acc @ [r]) @ fst (rows_loop body items []), snd (rows_loop body items []))"
      by (rule Cons.IH)
    moreover have "rows_loop body items [r] = ([r] @ fst (rows_loop body items []), snd (rows_loop body items []))"
      by (rule Cons.IH)
    ultimately show ?thesis using Inr by simp
  qed
qed

lemma rows_loop_total:
  "(\<And>item. item \<in> set items \<Longrightarrow> body item = Inr (f item)) \<Longrightarrow>
   rows_loop body items acc = (acc @ map f items, None)"
  by (induction items arbitrary: acc) simp_all

lemma rows_loop_all:
  "(\<And>item r. body item = Inr r \<Longrightarrow> P r) \<Longrightarrow> (\<forall>r \<in> set acc. P r) \<Longrightarrow>
   \<forall>r \<in> set (fst (rows_loop body items acc)). P r"
proof (induction items arbitrary: acc)
  case Nil
  then show ?case by simp
next
  case (Cons item items)
  show ?case
  proof (cases "body item")
    case (Inl e)
    with Cons.prems(2) show ?thesis by simp
  next
    case (Inr r)
    from Cons.prems(1) [OF Inr] Cons.prems(2) have "\<forall>x \<in> set (acc @ [r]). P x" by simp
    from Cons.IH [OF Cons.prems(1) this] Inr show ?thesis by simp
  qed
qed

lemma records_loop_acc:
  assumes "append_only step"
  shows "records_loop step rs acc = bindE (records_loop step rs []) (\<lambda>rows. Inr (acc @ rows))"
proof (induction rs arbitrary: acc)
  case Nil
  show ?case by (simp add: bindE_def)
next
  case (Cons r rs)
  have step: "step r acc = bindE (step r []) (\<lambda>rows. Inr (acc @ rows))"
    using assms unfolding append_only_def by blast
  show ?case
  proof (cases "step r []")
    case (Inl e)
    with step show ?thesis by (simp add: bindE_def)
  next
    case (Inr rows)
    have a: "records_loop step rs (acc @ rows) = bindE (records_loop step rs []) (\<lambda>rows'. Inr ((acc @ rows) @ rows'))"
      by (rule Cons.IH)
    have b: "records_loop step rs rows = bindE (records_loop step rs []) (\<lambda>rows'. Inr (rows @ rows'))"
      by (rule Cons.IH)
    show ?thesis using step Inr a b
      by (cases "records_loop step rs []") (simp_all add: bindE_def)
  qed
qed

lemma records_loop_append:
  assumes "append_only step"
  shows "records_loop step (xs @ ys) [] =
         bindE (records_loop step xs []) (\<lambda>a. bindE (records_loop step ys []) (\<lambda>b. Inr (a @ b)))"
proof (induction xs)
  case Nil
  show ?case by (cases "records_loop step ys []") (simp_all add: bindE_def)
next
  case (Cons x xs)
  show ?case
  proof (cases "step x []")
    case (Inl e)
    then show ?thesis by (simp add: bindE_def)
  next
    case (Inr rows)
    have a: "records_loop step (xs @ ys) rows = bindE (records_loop step (xs @ ys) []) (\<lambda>r. Inr (rows @ r))"
      by (rule records_loop_acc [OF assms])
    have b: "records_loop step xs rows = bindE (records_loop step xs []) (\<lambda>r. Inr (rows @ r))"
      by (rule records_loop_acc [OF assms])
    show ?thesis using Inr a b Cons.IH
      by (cases "records_loop step xs []"; cases "records_loop step ys []") (simp_all add: bindE_def)
  qed
qed

lemma records_loop_all:
  assumes "\<And>r acc acc'. step r acc = Inr acc' \<Longrightarrow> (\<forall>x \<in> set acc. P x) \<Longrightarrow> (\<forall>x \<in> set acc'. P x)"
  shows "records_loop step rs acc = Inr out \<Longrightarrow> (\<forall>x \<in> set acc. P x) \<Longrightarrow> (\<forall>x \<in> set out. P x)"
proof (induction rs arbitrary: acc)
  case Nil
  then show ?case by simp
next
  case (Cons r rs)
  from Cons.prems(1) obtain acc' where s: "step r acc = Inr acc'" and l: "records_loop step rs acc' = Inr out"
    by (auto split: sum.splits)
  from assms [OF s Cons.prems(2)] have "\<forall>x \<in> set acc'. P x" .
  from Cons.IH [OF l this] show ?case .
qed

lemma records_loop_single: "records_loop step [r] [] = step r []"
  by (cases "step r []") simp_all

lemma records_loop_concat:
  assumes ao: "append_only step"
  shows "records_loop step rs [] = Inr rows \<Longrightarrow>
         rows = concat (map (\<lambda>r. case step r [] of Inr x \<Rightarrow> x | Inl e \<Rightarrow> []) rs)"
proof (induction rs arbitrary: rows)
  case Nil
  then show ?case by simp
next
  case (Cons r rs)
  have "records_loop step ([r] @ rs) [] =
        bindE (records_loop step [r] []) (\<lambda>a. bindE (records_loop step rs []) (\<lambda>b. Inr (a @ b)))"
    by (rule records_loop_append [OF ao])
  with Cons.prems obtain a b where a: "step r [] = Inr a" and b: "records_loop step rs [] = Inr b"
    and r: "rows = a @ b"
    by (cases "step r []"; cases "records_loop step rs []")
       (auto simp: bindE_def records_loop_single simp del: records_loop.simps)
  from Cons.IH [OF b] a r show ?case by simp
qed

lemma dict_get_null: "dict_get (JObj kvs) k JNull = Inr (value_or_null (subscript (JObj kvs) k))"
  by (simp add: value_or_null_def split: option.splits)

lemma subscript_Inr_obj: "subscript x k = Inr v \<Longrightarrow> \<exists>kvs. x = JObj kvs \<and> map_of kvs k = Some v"
  by (cases x) (auto split: option.splits)

lemma subscript_KeyError_obj: "subscript x k = Inl KeyError \<Longrightarrow> \<exists>kvs. x = JObj kvs \<and> map_of kvs k = None"
  by (cases x) (auto split: option.splits)

section \<open>Properties of the normalizers\<close>

lemma transfer_info_of_eq:
  "transfer_info_of t =
     Inr [(''movement_date'', value_or_null (subscript t ''date'')),
          (''warehouse_origin'',
             value_or_null (bindE (subscript t ''origin'') (\<lambda>origin. subscript origin ''name''))),
          (''warehouse_destination'',
             value_or_null (bindE (subscript t ''destination'') (\<lambda>dest. subscript dest ''name'')))]"
  unfolding transfer_info_of_def
  by (simp add: assign_try_handled subscript_raises subscript2_raises bindE_Inr)

lemma transfer_item_row_eq:
  "transfer_item_row info item =
     Inr (dict_set (dict_set (dict_set info ''item_id'' (value_or_null (subscript item ''id'')))
            ''item_name'' (value_or_null (subscript item ''name'')))
            ''quantity'' (value_or_null (subscript item ''quantity'')))"
  unfolding transfer_item_row_def
  by (simp add: assign_try_handled subscript_raises bindE_Inr)

lemma transfer_try_items_acc:
  "transfer_try_items t info acc =
     (acc @ fst (transfer_try_items t info []), snd (transfer_try_items t info []))"
  unfolding transfer_try_items_def
  by (cases "bindE (subscript t ''items'') py_iter") (simp_all add: rows_loop_acc [of _ _ acc])

lemma append_only_process_transfer: "append_only process_transfer"
  unfolding append_only_def
proof (intro allI)
  fix t acc
  obtain rows ex where e: "transfer_try_items t (projr (transfer_info_of t)) [] = (rows, ex)"
    by (cases "transfer_try_items t (projr (transfer_info_of t)) []")
  have "transfer_try_items t (projr (transfer_info_of t)) acc = (acc @ rows, ex)"
    using transfer_try_items_acc [of t _ acc] e by simp
  with e show "process_transfer t acc = bindE (process_transfer t []) (\<lambda>rows. Inr (acc @ rows))"
    by (cases ex) (simp_all add: process_transfer_def transfer_info_of_eq bindE_def)
qed

lemma purchase_item_row_obj:
  "purchase_item_row order_id delivery_date warehouse_name (JObj kvs) =
     Inr [(''invoice_id'', order_id), (''added_inventory_date'', delivery_date),
          (''provider_id'', order_id), (''warehouse_name'', warehouse_name),
          (''price_provider'', value_or_null (subscript (JObj kvs) ''price'')),
          (''quantity'', value_or_null (subscript (JObj kvs) ''quantity'')),
          (''item_id'', value_or_null (subscript (JObj kvs) ''id'')),
          (''item_name'', value_or_null (subscript (JObj kvs) ''name''))]"
  unfolding purchase_item_row_def
  by (simp add: assign_try_def bindE_def value_or_null_def split: option.splits)

lemma purchase_item_row_keys:
  assumes "purchase_item_row order_id delivery_date warehouse_name item = Inr r"
  shows "map fst r = purchase_columns"
proof (cases item)
  case (JObj kvs)
  with assms show ?thesis
    by (auto simp: purchase_item_row_obj purchase_columns_def)
qed (use assms in \<open>simp_all add: purchase_item_row_def assign_try_def bindE_def\<close>)

lemma order_try_block_acc:
  "order_try_block order acc =
     (acc @ fst (order_try_block order []), snd (order_try_block order []))"
  unfolding order_try_block_def
  by (simp add: rows_loop_acc [of _ _ acc] split: sum.splits)

lemma append_only_process_order: "append_only process_order"
  unfolding append_only_def
proof (intro allI)
  fix order acc
  obtain rows ex where e: "order_try_block order [] = (rows, ex)"
    by (cases "order_try_block order []")
  have "order_try_block order acc = (acc @ rows, ex)"
    using order_try_block_acc [of order acc] e by simp
  with e show "process_order order acc = bindE (process_order order []) (\<lambda>rows. Inr (acc @ rows))"
    by (cases ex) (simp_all add: process_order_def bindE_def split: sum.splits)
qed

lemma process_order_obj:
  "\<exists>rows. process_order (JObj kvs) acc = Inr rows"
  by (cases "order_try_block (JObj kvs) acc")
     (auto simp: process_order_def bindE_def split: option.splits)

lemma invoice_item_row_keys:
  assumes "invoice_item_row invoice_id sale_date warehouse_name item = Inr r"
  shows "map fst r = invoice_columns"
  using assms
  by (auto simp: invoice_item_row_def bindE_def invoice_columns_def split: sum.splits)

lemma invoice_try_block_acc:
  "invoice_try_block invoice acc =
     (acc @ fst (invoice_try_block invoice []), snd (invoice_try_block invoice []))"
  unfolding invoice_try_block_def
  by (simp add: rows_loop_acc [of _ _ acc] split: sum.splits)

lemma append_only_process_invoice: "append_only process_invoice"
  unfolding append_only_def
proof (intro allI)
  fix invoice acc
  obtain rows ex where e: "invoice_try_block invoice [] = (rows, ex)"
    by (cases "invoice_try_block invoice []")
  have "invoice_try_block invoice acc = (acc @ rows, ex)"
    using invoice_try_block_acc [of invoice acc] e by simp
  with e show "process_invoice invoice acc = bindE (process_invoice invoice []) (\<lambda>rows. Inr (acc @ rows))"
    by (cases ex) (simp_all add: process_invoice_def bindE_def split: sum.splits)
qed

lemma transfer_item_row_info:
  "transfer_item_row (zip transfer_columns (map value_or_null (transfer_fields t))) item =
   Inr (zip (transfer_columns @ transfer_item_columns)
          (map value_or_null (transfer_fields t @ transfer_item_fields item)))"
  by (simp add: transfer_item_row_eq transfer_columns_def transfer_item_columns_def
      transfer_fields_def transfer_item_fields_def)

lemma transfer_info_of_zip:
  "transfer_info_of t = Inr (zip transfer_columns (map value_or_null (transfer_fields t)))"
  by (simp add: transfer_info_of_eq transfer_columns_def transfer_fields_def)

lemma process_transfer_items:
  assumes "bindE (subscript t ''items'') py_iter = Inr its"
  shows "process_transfer t [] =
         Inr (map (\<lambda>item. zip (transfer_columns @ transfer_item_columns)
                (map value_or_null (transfer_fields t @ transfer_item_fields item))) its)"
proof -
  let ?info = "zip transfer_columns (map value_or_null (transfer_fields t))"
  have "rows_loop (transfer_item_row ?info) its [] =
        ([] @ map (\<lambda>item. zip (transfer_columns @ transfer_item_columns)
                (map value_or_null (transfer_fields t @ transfer_item_fields item))) its, None)"
    by (rule rows_loop_total) (rule transfer_item_row_info)
  with assms show ?thesis
    by (simp add: process_transfer_def transfer_info_of_zip bindE_Inr transfer_try_items_def)
qed

lemma process_transfer_no_items:
  assumes "bindE (subscript t ''items'') py_iter = Inl e"
  shows "process_transfer t [] = Inr [zip transfer_columns (map value_or_null (transfer_fields t))]"
proof -
  have "raises_only [KeyError, TypeError] (bindE (subscript t ''items'') py_iter)"
  proof (cases "subscript t ''items''")
    case (Inl e')
    with subscript_raises [of t "''items''"] show ?thesis by (simp add: bindE_def raises_only_def)
  next
    case (Inr v)
    then show ?thesis by (cases v) (simp_all add: bindE_def raises_only_def)
  qed
  with assms have "e = KeyError \<or> e = TypeError" by (simp add: raises_only_def)
  with assms show ?thesis
    by (auto simp: process_transfer_def transfer_info_of_zip bindE_Inr transfer_try_items_def)
qed

lemma process_transfer_total:
  "\<exists>rows. process_transfer t [] = Inr rows
      \<and> (\<forall>r \<in> set rows. map fst r = transfer_columns @ transfer_item_columns
                        \<or> map fst r = transfer_columns)"
proof (cases "bindE (subscript t ''items'') py_iter")
  case (Inl e)
  from process_transfer_no_items [OF Inl] show ?thesis
    by (simp add: transfer_columns_def transfer_fields_def)
next
  case (Inr its)
  from process_transfer_items [OF Inr] show ?thesis
    by (auto simp: transfer_columns_def transfer_item_columns_def transfer_fields_def transfer_item_fields_def)
qed

lemma process_warehouse_transfers_data_total:
  "\<exists>rows. process_warehouse_transfers_data ts = Inr rows"
proof -
  have "\<exists>rows. records_loop process_transfer ts acc = Inr rows" for acc
  proof (induction ts arbitrary: acc)
    case Nil
    show ?case by simp
  next
    case (Cons t ts)
    obtain rows where "process_transfer t [] = Inr rows"
      using process_transfer_total [of t] by blast
    moreover have "process_transfer t acc = bindE (process_transfer t []) (\<lambda>rows. Inr (acc @ rows))"
      using append_only_process_transfer unfolding append_only_def by blast
    ultimately have "process_transfer t acc = Inr (acc @ rows)" by (simp add: bindE_def)
    with Cons.IH [of "acc @ rows"] show ?case by simp
  qed
  then show ?thesis by (simp add: process_warehouse_transfers_data_def)
qed

lemma py_iter_raises: "raises_only [KeyError, TypeError] (py_iter v)"
  by (cases v) (simp_all add: raises_only_def)

lemma process_order_rows:
  assumes oid: "subscript order ''id'' = Inr order_id"
      and wn: "order_warehouse_name order = Inr warehouse_name"
      and its: "bindE (order_purchases_items order) py_iter = Inr its"
      and objs: "\<forall>item \<in> set its. is_obj item"
  shows "process_order order [] = Inr (map (purchase_row order order_id warehouse_name) its)"
proof -
  from subscript_Inr_obj [OF oid] obtain kvs where o: "order = JObj kvs" by blast
  let ?dd = "value_or_null (subscript order ''deliveryDate'')"
  have dd: "dict_get order ''deliveryDate'' JNull = Inr ?dd"
    unfolding o by (rule dict_get_null)
  have "rows_loop (purchase_item_row order_id ?dd warehouse_name) its [] =
        ([] @ map (purchase_row order order_id warehouse_name) its, None)"
  proof (rule rows_loop_total)
    fix item assume "item \<in> set its"
    with objs obtain ikvs where "item = JObj ikvs" by (cases item) auto
    then show "purchase_item_row order_id ?dd warehouse_name item =
               Inr (purchase_row order order_id warehouse_name item)"
      by (simp add: purchase_item_row_obj purchase_row_def)
  qed
  with oid dd wn its show ?thesis
    by (simp add: process_order_def order_try_block_def)
qed

lemma process_order_no_id:
  assumes "subscript order ''id'' = Inl KeyError"
  shows "process_order order [] = Inr []"
proof -
  from subscript_KeyError_obj [OF assms] obtain kvs where "order = JObj kvs" by blast
  with assms show ?thesis
    by (simp add: process_order_def order_try_block_def bindE_def split: option.splits)
qed

lemma process_purchase_orders_data_total:
  assumes "\<forall>order \<in> set orders. is_obj order"
  shows "\<exists>rows. process_purchase_orders_data orders = Inr rows"
proof -
  have "\<forall>order \<in> set orders. is_obj order \<Longrightarrow> \<exists>rows. records_loop process_order orders acc = Inr rows" for acc
  proof (induction orders arbitrary: acc)
    case Nil
    show ?case by simp
  next
    case (Cons order orders)
    then obtain kvs where "order = JObj kvs" by (cases order) auto
    with process_order_obj [of kvs acc] obtain acc' where "process_order order acc = Inr acc'" by blast
    with Cons.IH [of acc'] Cons.prems show ?case by simp
  qed
  with assms show ?thesis by (simp add: process_purchase_orders_data_def)
qed

lemma order_warehouse_name_null:
  "map_of kvs ''warehouse'' = None \<or> map_of kvs ''warehouse'' = Some JNull \<Longrightarrow>
   order_warehouse_name (JObj kvs) = Inr JNull"
  by (auto simp: order_warehouse_name_def bindE_def)

lemma process_order_keys:
  assumes "process_order order acc = Inr acc'" and "\<forall>r \<in> set acc. map fst r = purchase_columns"
  shows "\<forall>r \<in> set acc'. map fst r = purchase_columns"
proof -
  have loop: "\<forall>r \<in> set (fst (rows_loop (purchase_item_row a b c) its acc)). map fst r = purchase_columns"
    for a b c its
    by (rule rows_loop_all [OF purchase_item_row_keys assms(2)])
  have "\<forall>r \<in> set (fst (order_try_block order acc)). map fst r = purchase_columns"
    unfolding order_try_block_def using assms(2) loop
    by (simp split: sum.splits)
  moreover from assms(1) have "acc' = fst (order_try_block order acc)"
    by (cases "order_try_block order acc") (auto simp: process_order_def bindE_def split: option.splits sum.splits)
  ultimately show ?thesis by simp
qed

lemma process_invoice_keys:
  assumes "process_invoice invoice acc = Inr acc'" and "\<forall>r \<in> set acc. map fst r = invoice_columns"
  shows "\<forall>r \<in> set acc'. map fst r = invoice_columns"
proof -
  have loop: "\<forall>r \<in> set (fst (rows_loop (invoice_item_row a b c) its acc)). map fst r = invoice_columns"
    for a b c its
    by (rule rows_loop_all [OF invoice_item_row_keys assms(2)])
  have "\<forall>r \<in> set (fst (invoice_try_block invoice acc)). map fst r = invoice_columns"
    unfolding invoice_try_block_def using assms(2) loop
    by (simp split: sum.splits)
  moreover from assms(1) have "acc' = fst (invoice_try_block invoice acc)"
    by (cases "invoice_try_block invoice acc") (auto simp: process_invoice_def bindE_def split: option.splits sum.splits if_splits)
  ultimately show ?thesis by simp
qed

lemma invoice_item_row_obj:
  "invoice_item_row invoice_id sale_date warehouse_name (JObj kvs) =
     Inr [(''factura_id'', invoice_id), (''fecha_venta'', sale_date),
          (''item_id'', value_or_null (subscript (JObj kvs) ''id'')),
          (''item_name'', value_or_null (subscript (JObj kvs) ''name'')),
          (''item_quantity'', value_or_null (subscript (JObj kvs) ''quantity'')),
          (''warehouse_name'', warehouse_name)]"
  unfolding invoice_item_row_def
  by (simp add: bindE_def value_or_null_def split: option.splits)

lemma process_invoice_rows:
  assumes inv: "is_obj invoice"
      and wn: "invoice_warehouse_name invoice = Inr warehouse_name"
      and its: "bindE (dict_get invoice ''items'' (JList [])) py_iter = Inr its"
      and objs: "\<forall>item \<in> set its. is_obj item"
  shows "process_invoice invoice [] = Inr (map (invoice_row invoice warehouse_name) its)"
proof -
  from inv obtain kvs where o: "invoice = JObj kvs" by (cases invoice) auto
  let ?id = "value_or_null (subscript invoice ''id'')"
  let ?date = "value_or_null (subscript invoice ''date'')"
  have g: "dict_get invoice ''id'' JNull = Inr ?id" "dict_get invoice ''date'' JNull = Inr ?date"
    unfolding o by (rule dict_get_null)+
  obtain v where v: "dict_get invoice ''items'' (JList []) = Inr v" and it: "py_iter v = Inr its"
    using its by (cases "dict_get invoice ''items'' (JList [])") (simp_all add: bindE_def)
  have "rows_loop (invoice_item_row ?id ?date warehouse_name) its [] =
        ([] @ map (invoice_row invoice warehouse_name) its, None)"
  proof (rule rows_loop_total)
    fix item assume "item \<in> set its"
    with objs obtain ikvs where "item = JObj ikvs" by (cases item) auto
    then show "invoice_item_row ?id ?date warehouse_name item = Inr (invoice_row invoice warehouse_name item)"
      by (simp add: invoice_item_row_obj invoice_row_def)
  qed
  with g v it wn show ?thesis
    by (simp add: process_invoice_def invoice_try_block_def)
qed

lemma process_invoice_skip:
  assumes inv: "is_obj invoice"
      and wn: "invoice_warehouse_name invoice = Inr warehouse_name"
      and its: "bindE (dict_get invoice ''items'' (JList [])) py_iter = Inl e"
  shows "process_invoice invoice [] = Inr []"
proof -
  from inv obtain kvs where o: "invoice = JObj kvs" by (cases invoice) auto
  obtain v where v: "dict_get invoice ''items'' (JList []) = Inr v"
    unfolding o by (cases "map_of kvs ''items''") simp_all
  with its have it: "py_iter v = Inl e" by (simp add: bindE_def)
  with py_iter_raises [of v] have "e = KeyError \<or> e = TypeError" by (simp add: raises_only_def)
  with v it wn show ?thesis
    by (auto simp: process_invoice_def invoice_try_block_def o bindE_def split: option.splits)
qed

lemma invoice_warehouse_name_unknown:
  "map_of kvs ''warehouse'' = None \<Longrightarrow> invoice_warehouse_name (JObj kvs) = Inr (JStr ''Unknown'')"
  by (simp add: invoice_warehouse_name_def bindE_def)

section \<open>Batches as concatenations of their records\<close>

lemma bindE_Inr_id: "bindE c Inr = c"
  by (cases c) (simp_all add: bindE_def)

lemma transfers_append:
  "process_warehouse_transfers_data (xs @ ys) =
   bindE (process_warehouse_transfers_data xs) (\<lambda>a.
   bindE (process_warehouse_transfers_data ys) (\<lambda>b. Inr (a @ b)))"
  unfolding process_warehouse_transfers_data_def
  by (rule records_loop_append [OF append_only_process_transfer])

lemma purchases_append:
  "process_purchase_orders_data (xs @ ys) =
   bindE (process_purchase_orders_data xs) (\<lambda>a.
   bindE (process_purchase_orders_data ys) (\<lambda>b. Inr (a @ b)))"
  unfolding process_purchase_orders_data_def
  by (rule records_loop_append [OF append_only_process_order])

lemma invoices_append:
  "process_invoice_data (xs @ ys) =
   bindE (process_invoice_data xs) (\<lambda>a.
   bindE (process_invoice_data ys) (\<lambda>b. Inr (a @ b)))"
  unfolding process_invoice_data_def
  by (rule records_loop_append [OF append_only_process_invoice])

lemma transfers_single: "process_warehouse_transfers_data [t] = process_transfer t []"
  unfolding process_warehouse_transfers_data_def by (rule records_loop_single)

lemma purchases_single: "process_purchase_orders_data [order] = process_order order []"
  unfolding process_purchase_orders_data_def by (rule records_loop_single)

lemma invoices_single: "process_invoice_data [invoice] = process_invoice invoice []"
  unfolding process_invoice_data_def by (rule records_loop_single)

lemma record_rows_transfers:
  "record_rows process_warehouse_transfers_data =
   (\<lambda>r. case process_transfer r [] of Inr x \<Rightarrow> x | Inl e \<Rightarrow> [])"
  by (rule ext) (simp add: record_rows_def transfers_single)

lemma record_rows_purchases:
  "record_rows process_purchase_orders_data =
   (\<lambda>r. case process_order r [] of Inr x \<Rightarrow> x | Inl e \<Rightarrow> [])"
  by (rule ext) (simp add: record_rows_def purchases_single)

lemma record_rows_invoices:
  "record_rows process_invoice_data =
   (\<lambda>r. case process_invoice r [] of Inr x \<Rightarrow> x | Inl e \<Rightarrow> [])"
  by (rule ext) (simp add: record_rows_def invoices_single)

lemma transfers_concat:
  "process_warehouse_transfers_data ts =
   Inr (concat (map (record_rows process_warehouse_transfers_data) ts))"
proof -
  obtain rows where r: "process_warehouse_transfers_data ts = Inr rows"
    using process_warehouse_transfers_data_total by blast
  then have "rows = concat (map (\<lambda>r. case process_transfer r [] of Inr x \<Rightarrow> x | Inl e \<Rightarrow> []) ts)"
    unfolding process_warehouse_transfers_data_def
    by (rule records_loop_concat [OF append_only_process_transfer])
  with r show ?thesis by (simp add: record_rows_transfers)
qed

lemma purchases_concat:
  assumes "process_purchase_orders_data orders = Inr rows"
  shows "rows = concat (map (record_rows process_purchase_orders_data) orders)"
proof -
  from assms have "rows = concat (map (\<lambda>r. case process_order r [] of Inr x \<Rightarrow> x | Inl e \<Rightarrow> []) orders)"
    unfolding process_purchase_orders_data_def
    by (rule records_loop_concat [OF append_only_process_order])
  then show ?thesis by (simp add: record_rows_purchases)
qed

lemma invoices_concat:
  assumes "process_invoice_data invoices = Inr rows"
  shows "rows = concat (map (record_rows process_invoice_data) invoices)"
proof -
  from assms have "rows = concat (map (\<lambda>r. case process_invoice r [] of Inr x \<Rightarrow> x | Inl e \<Rightarrow> []) invoices)"
    unfolding process_invoice_data_def
    by (rule records_loop_concat [OF append_only_process_invoice])
  then show ?thesis by (simp add: record_rows_invoices)
qed

lemma purchases_skip:
  assumes "process_purchase_orders_data [order] = Inr []"
  shows "process_purchase_orders_data (xs @ order # ys) = process_purchase_orders_data (xs @ ys)"
proof -
  have "process_purchase_orders_data ([order] @ ys) = process_purchase_orders_data ys"
    unfolding purchases_append [of "[order]" ys] assms by (simp add: bindE_Inr bindE_Inr_id)
  then show ?thesis
    using purchases_append [of xs "order # ys"] purchases_append [of xs ys] by simp
qed

lemma invoices_skip:
  assumes "process_invoice_data [invoice] = Inr []"
  shows "process_invoice_data (xs @ invoice # ys) = process_invoice_data (xs @ ys)"
proof -
  have "process_invoice_data ([invoice] @ ys) = process_invoice_data ys"
    unfolding invoices_append [of "[invoice]" ys] assms by (simp add: bindE_Inr bindE_Inr_id)
  then show ?thesis
    using invoices_append [of xs "invoice # ys"] invoices_append [of xs ys] by simp
qed

lemma transfers_keys:
  assumes "process_warehouse_transfers_data ts = Inr rows"
  shows "\<forall>r \<in> set rows. map fst r = transfer_columns @ transfer_item_columns \<or> map fst r = transfer_columns"
proof -
  have "\<forall>r \<in> set (record_rows process_warehouse_transfers_data t).
          map fst r = transfer_columns @ transfer_item_columns \<or> map fst r = transfer_columns" for t
    using process_transfer_total [of t] by (auto simp: record_rows_transfers)
  moreover from assms have "rows = concat (map (record_rows process_warehouse_transfers_data) ts)"
    by (simp add: transfers_concat)
  ultimately show ?thesis by auto
qed

lemma purchases_keys:
  assumes "process_purchase_orders_data orders = Inr rows"
  shows "\<forall>r \<in> set rows. map fst r = purchase_columns"
proof -
  have "\<forall>r \<in> set ([]::row list). map fst r = purchase_columns" by simp
  with assms show ?thesis
    unfolding process_purchase_orders_data_def
    by (rule records_loop_all [where step = process_order, rotated]) (rule process_order_keys)
qed

lemma invoices_keys:
  assumes "process_invoice_data invoices = Inr rows"
  shows "\<forall>r \<in> set rows. map fst r = invoice_columns"
proof -
  have "\<forall>r \<in> set ([]::row list). map fst r = invoice_columns" by simp
  with assms show ?thesis
    unfolding process_invoice_data_def
    by (rule records_loop_all [where step = process_invoice, rotated]) (rule process_invoice_keys)
qed

lemma items_rows:
  "process_items_data items =
   Inr (map (\<lambda>item. zip items_columns (map value_or_null (item_fields item))) items)"
proof -
  have "projr (item_row item) = zip items_columns (map value_or_null (item_fields item))" for item
    by (simp add: item_row_eq items_columns_def) (simp add: item_fields_def)
  then show ?thesis by (simp add: process_items_data_def process_items_loop_eq)
qed

section \<open>Properties of the pagination loop\<close>





lemma records_loop_replicate_skip:
  assumes "\<And>acc. step r acc = Inr acc"
  shows "records_loop step (replicate n r) acc = Inr acc"
  by (induction n) (simp_all add: assms)

lemma process_order_empty_acc:
  assumes "process_order order [] = Inr []"
  shows "process_order order acc = Inr acc"
proof -
  have "process_order order acc = bindE (process_order order []) (\<lambda>rows. Inr (acc @ rows))"
    using append_only_process_order unfolding append_only_def by blast
  with assms show ?thesis by (simp add: bindE_def)
qed

lemma orders_without_items_no_rows:
  "process_purchase_orders_data (replicate n (JObj [(''id'', JInt 1)])) = Inr []"
  "process_purchase_orders_data (replicate n (JObj [(''id'', JInt 1), (''items'', JList [])])) = Inr []"
proof -
  have a: "process_order (JObj [(''id'', JInt 1)]) [] = Inr []"
    by (simp add: process_order_def order_try_block_def order_warehouse_name_def
        order_purchases_items_def bindE_def)
  show "process_purchase_orders_data (replicate n (JObj [(''id'', JInt 1)])) = Inr []"
    unfolding process_purchase_orders_data_def
    by (rule records_loop_replicate_skip) (rule process_order_empty_acc [OF a])
  have b: "process_order (JObj [(''id'', JInt 1), (''items'', JList [])]) [] = Inr []"
    by (simp add: process_order_def order_try_block_def order_warehouse_name_def
        order_purchases_items_def bindE_def)
  show "process_purchase_orders_data (replicate n (JObj [(''id'', JInt 1), (''items'', JList [])])) = Inr []"
    unfolding process_purchase_orders_data_def
    by (rule records_loop_replicate_skip) (rule process_order_empty_acc [OF b])
qed


text \<open>When the first page yields at least one row, the file of a run that returns has its
  header exactly once, whatever was in the file before and however many batches follow.\<close>

lemma save_append_header_once:
  "header_once cols lines \<Longrightarrow> header_once cols (save_batch_to_csv data lines False)"
  by (cases lines) (auto simp: header_once_def save_batch_to_csv_def Let_def list_all_iff)

lemma save_first_header_once:
  "header_once (df_columns data) (save_batch_to_csv data lines True)"
  by (auto simp: header_once_def save_batch_to_csv_def Let_def list_all_iff)

lemma fetch_loop_keeps_header:
  assumes run: "fetch_loop process api s = Some res"
  shows "start s \<noteq> 0 \<and> header_once cols (artifact s) \<longrightarrow> header_once cols (artifact (snd res))"
proof (rule fetch_loop.raw_induct
    [where P = "\<lambda>process api s res. start s \<noteq> 0 \<and> header_once cols (artifact s)
                  \<longrightarrow> header_once cols (artifact (snd res))", OF _ run])
  fix f :: "(json list \<Rightarrow> py_error + row list) \<Rightarrow> (nat \<Rightarrow> response) \<Rightarrow> run_state \<Rightarrow> (py_error option \<times> run_state) option"
  fix process api s res
  assume IH: "\<And>process api s res. f process api s = Some res \<Longrightarrow>
                start s \<noteq> 0 \<and> header_once cols (artifact s) \<longrightarrow> header_once cols (artifact (snd res))"
  assume body: "(let s1 = s\<lparr>requests := requests s @ [start s]\<rparr> in
      (case api (start s) of
         Failed e \<Rightarrow> Some (Some e, s1)
       | Page batch_data \<Rightarrow>
           (if batch_data = [] then Some (None, s1)
            else
              (let s2 = s1\<lparr>all_records := all_records s1 @ batch_data\<rparr> in
               (case process batch_data of
                  Inl e \<Rightarrow> Some (Some e, s2)
                | Inr processed_batch \<Rightarrow>
                    (let s3 = (if processed_batch \<noteq> []
                               then s2\<lparr>artifact := save_batch_to_csv processed_batch (artifact s2) (start s2 = 0)\<rparr>
                               else s2)
                     in (if length batch_data < BATCH_SIZE then Some (None, s3)
                         else f process api (s3\<lparr>start := start s3 + BATCH_SIZE\<rparr>)))))))) = Some res"
  show "start s \<noteq> 0 \<and> header_once cols (artifact s) \<longrightarrow> header_once cols (artifact (snd res))"
  proof
    assume a: "start s \<noteq> 0 \<and> header_once cols (artifact s)"
    show "header_once cols (artifact (snd res))"
    proof (cases "api (start s)")
      case (Failed e)
      with body a show ?thesis by (auto simp: Let_def)
    next
      case (Page b)
      show ?thesis
      proof (cases "b = []")
        case True
        with body a Page show ?thesis by (auto simp: Let_def)
      next
        case ne: False
        show ?thesis
        proof (cases "process b")
          case (Inl e)
          with body a Page ne show ?thesis by (auto simp: Let_def)
        next
          case (Inr rows)
          let ?s3 = "if rows \<noteq> []
                     then s\<lparr>requests := requests s @ [start s], all_records := all_records s @ b,
                            artifact := save_batch_to_csv rows (artifact s) False\<rparr>
                     else s\<lparr>requests := requests s @ [start s], all_records := all_records s @ b\<rparr>"
          have h3: "header_once cols (artifact ?s3)"
            using a by (simp add: save_append_header_once)
          show ?thesis
          proof (cases "length b < BATCH_SIZE")
            case True
            with body a Page ne Inr have "res = (None, ?s3)"
              by (auto simp: Let_def split: if_splits)
            with h3 show ?thesis by simp
          next
            case False
            with body a Page ne Inr
            have r: "f process api (?s3\<lparr>start := start s + BATCH_SIZE\<rparr>) = Some res"
              by (auto simp: Let_def split: if_splits)
            have "start (?s3\<lparr>start := start s + BATCH_SIZE\<rparr>) \<noteq> 0" by (simp add: BATCH_SIZE_def)
            moreover have "header_once cols (artifact (?s3\<lparr>start := start s + BATCH_SIZE\<rparr>))"
              using h3 by simp
            ultimately show ?thesis using IH [OF r] by blast
          qed
        qed
      qed
    qed
  qed
qed

lemma header_once_when_first_page_yields_rows:
  assumes first: "api 0 = Page b" "b \<noteq> []" "process b = Inr rows" "rows \<noteq> []"
      and run: "fetch_loop process api (initial_state lines) = Some res"
  shows "header_once (df_columns rows) (artifact (snd res))"
proof -
  let ?s3 = "\<lparr>all_records = b, start = 0, requests = [0],
              artifact = save_batch_to_csv rows lines True\<rparr>"
  have h: "header_once (df_columns rows) (artifact ?s3)" by (simp add: save_first_header_once)
  show ?thesis
  proof (cases "length b < BATCH_SIZE")
    case True
    with first run have "res = (None, ?s3)"
      by (subst (asm) fetch_loop.simps) (simp add: initial_state_def Let_def)
    with h show ?thesis by simp
  next
    case False
    with first run
    have r: "fetch_loop process api (?s3\<lparr>start := BATCH_SIZE\<rparr>) = Some res"
      by (subst (asm) fetch_loop.simps) (simp add: initial_state_def Let_def)
    have "start (?s3\<lparr>start := BATCH_SIZE\<rparr>) \<noteq> 0" by (simp add: BATCH_SIZE_def)
    moreover have "header_once (df_columns rows) (artifact (?s3\<lparr>start := BATCH_SIZE\<rparr>))"
      using h by simp
    ultimately show ?thesis using fetch_loop_keeps_header [OF r] by blast
  qed
qed

section \<open>Properties of the loader\<close>

lemma registered_nonempty: "get_predefined_schema table_name = Some registered \<Longrightarrow> registered \<noteq> []"
  by (auto simp: get_predefined_schema_def schemas_def split: if_splits)

lemma submitted_jobs_append: "submitted_jobs (xs @ ys) = submitted_jobs xs @ submitted_jobs ys"
  by (simp add: submitted_jobs_def List.map_filter_def)

lemma submitted_jobs_simps:
  "submitted_jobs [] = []"
  "submitted_jobs (GetDataset d # calls) = submitted_jobs calls"
  "submitted_jobs (CreateDataset d # calls) = submitted_jobs calls"
  "submitted_jobs (GetTable t # calls) = submitted_jobs calls"
  "submitted_jobs (LoadTableFromFile f t config # calls) = config # submitted_jobs calls"
  by (simp_all add: submitted_jobs_def List.map_filter_def)

lemma create_dataset_no_jobs:
  "submitted_jobs (snd (create_dataset_if_not_exists env dataset_id)) = []"
  by (cases "get_dataset env (client_project env @ ''.'' @ dataset_id)")
     (simp_all add: create_dataset_if_not_exists_def Let_def submitted_jobs_simps)

lemma upload_bad_id:
  assumes "length (split_on CHR ''.'' table_id) \<noteq> 3"
  shows "upload_csv_to_table env csv_file table_id wd schema auto skip delim enc =
           (if file_exists env csv_file then InvalidTableId else FileMissing, [])"
proof (cases "split_on CHR ''.'' table_id")
  case Nil
  then show ?thesis by (simp add: upload_csv_to_table_def)
next
  case l1: (Cons a as)
  show ?thesis
  proof (cases as)
    case Nil
    with l1 show ?thesis by (simp add: upload_csv_to_table_def)
  next
    case l2: (Cons b bs)
    show ?thesis
    proof (cases bs)
      case Nil
      with l1 l2 show ?thesis by (simp add: upload_csv_to_table_def)
    next
      case l3: (Cons c cs)
      with assms l1 l2 obtain d ds where "cs = d # ds" by (cases cs) auto
      with l1 l2 l3 show ?thesis by (simp add: upload_csv_to_table_def)
    qed
  qed
qed

lemma upload_jobs:
  "submitted_jobs (snd (upload_csv_to_table env csv_file table_id wd schema auto skip delim enc)) = []
   \<or> (\<exists>project_id dataset_id table_name schema'.
        split_on CHR ''.'' table_id = [project_id, dataset_id, table_name]
      \<and> determine_schema env csv_file table_name schema auto = Some schema'
      \<and> submitted_jobs (snd (upload_csv_to_table env csv_file table_id wd schema auto skip delim enc))
          = [load_config wd schema' auto skip delim enc])"
proof (cases "length (split_on CHR ''.'' table_id) = 3")
  case False
  then show ?thesis by (simp add: upload_bad_id submitted_jobs_simps)
next
  case True
  then obtain p d t where parts: "split_on CHR ''.'' table_id = [p, d, t]"
    by (auto simp: length_Suc_conv numeral_3_eq_3)
  show ?thesis
  proof (cases "file_exists env csv_file")
    case False
    then show ?thesis by (simp add: upload_csv_to_table_def submitted_jobs_simps)
  next
    case ex: True
    obtain ok calls where c: "create_dataset_if_not_exists env d = (ok, calls)"
      by (cases "create_dataset_if_not_exists env d")
    with create_dataset_no_jobs [of env d] have nj: "submitted_jobs calls = []" by simp
    show ?thesis
    proof (cases ok)
      case False
      with ex parts c nj show ?thesis by (simp add: upload_csv_to_table_def)
    next
      case ok: True
      show ?thesis
      proof (cases "determine_schema env csv_file t schema auto")
        case None
        with ex parts c nj ok show ?thesis by (simp add: upload_csv_to_table_def)
      next
        case (Some schema')
        have "submitted_jobs (snd (upload_csv_to_table env csv_file table_id wd schema auto skip delim enc))
              = [load_config wd schema' auto skip delim enc]"
          using ex parts c nj ok Some
          by (cases "load_table_from_file env csv_file (p, d, t) (load_config wd schema' auto skip delim enc)")
             (simp_all add: upload_csv_to_table_def Let_def submitted_jobs_append submitted_jobs_simps)
        with parts Some show ?thesis by blast
      qed
    qed
  qed
qed

lemma demo_upload_jobs:
  "submitted_jobs (snd (upload_csv_to_table demo_cloud ''factura_items.csv'' ''proj.optistock.sales''
      wd schema auto skip delim enc))
   = (case determine_schema demo_cloud ''factura_items.csv'' ''sales'' schema auto of
        None \<Rightarrow> []
      | Some schema' \<Rightarrow> [load_config wd schema' auto skip delim enc])"
  by (simp add: upload_csv_to_table_def demo_cloud_def create_dataset_if_not_exists_def
      submitted_jobs_simps Let_def split: option.splits)

section \<open>Properties of the batch coordinator\<close>

lemma upload_entities_reports:
  "upload_entities ex up m w st = (st', w') \<Longrightarrow>
   \<exists>rs. reports st' = reports st @ rs
      \<and> map fst rs = map fst m
      \<and> (\<forall>(f, r) \<in> set rs. (r = Skipped) = (\<not> ex f))
      \<and> total_files st' = total_files st + length m
      \<and> success_count st' = success_count st + length (filter (\<lambda>(f, r). r = UploadSucceeded) rs)"
proof (induction m arbitrary: w st)
  case Nil
  then show ?case by simp
next
  case (Cons entity m)
  obtain csv_file table_name where e: "entity = (csv_file, table_name)" by (cases entity)
  show ?case
  proof (cases "ex csv_file")
    case False
    let ?st = "st\<lparr>total_files := total_files st + 1, reports := reports st @ [(csv_file, Skipped)]\<rparr>"
    from Cons.prems e False have "upload_entities ex up m w ?st = (st', w')" by simp
    from Cons.IH [OF this] obtain rs where rs: "reports st' = reports ?st @ rs" "map fst rs = map fst m"
        "\<forall>(f, r) \<in> set rs. (r = Skipped) = (\<not> ex f)"
        "total_files st' = total_files ?st + length m"
        "success_count st' = success_count ?st + length (filter (\<lambda>(f, r). r = UploadSucceeded) rs)"
      by blast
    show ?thesis
      by (rule exI [of _ "(csv_file, Skipped) # rs"]) (use rs e False in simp)
  next
    case True
    obtain success w1 where u: "up w csv_file (PROJECT_ID @ ''.'' @ DATASET_ID @ ''.'' @ table_name) = (success, w1)"
      by (cases "up w csv_file (PROJECT_ID @ ''.'' @ DATASET_ID @ ''.'' @ table_name)")
    let ?st = "st\<lparr>total_files := total_files st + 1,
                   success_count := success_count st + (if success = Returned True then 1 else 0),
                   reports := reports st @ [(csv_file, report_of success)]\<rparr>"
    from Cons.prems e True u have "upload_entities ex up m w1 ?st = (st', w')"
      by (simp add: Let_def split: if_splits)
    from Cons.IH [OF this] obtain rs where rs: "reports st' = reports ?st @ rs" "map fst rs = map fst m"
        "\<forall>(f, r) \<in> set rs. (r = Skipped) = (\<not> ex f)"
        "total_files st' = total_files ?st + length m"
        "success_count st' = success_count ?st + length (filter (\<lambda>(f, r). r = UploadSucceeded) rs)"
      by blast
    have ns: "report_of success \<noteq> Skipped" by (cases success rule: report_of.cases) simp_all
    have su: "(report_of success = UploadSucceeded) = (success = Returned True)"
      by (cases success rule: report_of.cases) simp_all
    show ?thesis
      by (rule exI [of _ "(csv_file, report_of success) # rs"]) (use rs e True ns su in simp)
  qed
qed

lemma partly_failing_uploads:
  "uploader_call partly_failing_cloud ''warehouse_movements.csv''
     ''your-project-id.optistock.warehouse_movements'' = (Returned False, partly_failing_cloud)"
  "uploader_call partly_failing_cloud ''purchase_orders.csv''
     ''your-project-id.optistock.purchases'' = (Returned True, partly_failing_cloud)"
  "uploader_call partly_failing_cloud ''factura_items.csv''
     ''your-project-id.optistock.sales'' = (Returned True, partly_failing_cloud)"
  by (simp_all add: uploader_call_def upload_csv_to_table_def partly_failing_cloud_def
      create_dataset_if_not_exists_def determine_schema_def
      get_predefined_schema_def schemas_def lower_def lower_char_def returned_value_def Let_def)

lemma upload_entities_trace:
  "upload_entities ex up m w st = (st', w') \<Longrightarrow>
   \<exists>ws rs. length ws = Suc (length m) \<and> ws ! 0 = w \<and> ws ! length m = w'
      \<and> reports st' = reports st @ rs \<and> length rs = length m
      \<and> (\<forall>i < length m.
            rs ! i = (fst (m ! i),
                       if ex (fst (m ! i))
                       then report_of (fst (up (ws ! i) (fst (m ! i)) (table_id_of (snd (m ! i)))))
                       else Skipped)
          \<and> ws ! Suc i = (if ex (fst (m ! i))
                           then snd (up (ws ! i) (fst (m ! i)) (table_id_of (snd (m ! i))))
                           else ws ! i))"
proof (induction m arbitrary: w st)
  case Nil
  then show ?case by (intro exI [of _ "[w]"] exI [of _ "[]"]) simp
next
  case (Cons entity m)
  obtain csv_file table_name where e: "entity = (csv_file, table_name)" by (cases entity)
  let ?r = "(csv_file, if ex csv_file then report_of (fst (up w csv_file (table_id_of table_name))) else Skipped)"
  let ?w1 = "if ex csv_file then snd (up w csv_file (table_id_of table_name)) else w"
  have "\<exists>st1. upload_entities ex up m ?w1 st1 = (st', w') \<and> reports st1 = reports st @ [?r]"
  proof (cases "ex csv_file")
    case False
    with Cons.prems e show ?thesis by (auto simp: Let_def)
  next
    case True
    obtain res w1 where u: "up w csv_file (table_id_of table_name) = (res, w1)"
      by (cases "up w csv_file (table_id_of table_name)")
    with Cons.prems e True show ?thesis
      by (auto simp: Let_def table_id_of_def split: if_splits)
  qed
  then obtain st1 where run: "upload_entities ex up m ?w1 st1 = (st', w')"
      and r1: "reports st1 = reports st @ [?r]" by blast
  from Cons.IH [OF run] obtain ws rs where IH: "length ws = Suc (length m)" "ws ! 0 = ?w1"
      "ws ! length m = w'" "reports st' = reports st1 @ rs" "length rs = length m"
      "\<forall>i < length m.
            rs ! i = (fst (m ! i),
                       if ex (fst (m ! i))
                       then report_of (fst (up (ws ! i) (fst (m ! i)) (table_id_of (snd (m ! i)))))
                       else Skipped)
          \<and> ws ! Suc i = (if ex (fst (m ! i))
                           then snd (up (ws ! i) (fst (m ! i)) (table_id_of (snd (m ! i))))
                           else ws ! i)"
    by blast
  have step: "\<forall>i < length (entity # m).
            (?r # rs) ! i = (fst ((entity # m) ! i),
                       if ex (fst ((entity # m) ! i))
                       then report_of (fst (up ((w # ws) ! i) (fst ((entity # m) ! i)) (table_id_of (snd ((entity # m) ! i)))))
                       else Skipped)
          \<and> (w # ws) ! Suc i = (if ex (fst ((entity # m) ! i))
                           then snd (up ((w # ws) ! i) (fst ((entity # m) ! i)) (table_id_of (snd ((entity # m) ! i))))
                           else (w # ws) ! i)"
  proof (intro allI impI)
    fix i assume "i < length (entity # m)"
    show "(?r # rs) ! i = (fst ((entity # m) ! i),
                       if ex (fst ((entity # m) ! i))
                       then report_of (fst (up ((w # ws) ! i) (fst ((entity # m) ! i)) (table_id_of (snd ((entity # m) ! i)))))
                       else Skipped)
          \<and> (w # ws) ! Suc i = (if ex (fst ((entity # m) ! i))
                           then snd (up ((w # ws) ! i) (fst ((entity # m) ! i)) (table_id_of (snd ((entity # m) ! i))))
                           else (w # ws) ! i)"
    proof (cases i)
      case 0
      with e IH(2) show ?thesis by simp
    next
      case (Suc j)
      with \<open>i < length (entity # m)\<close> have "j < length m" by simp
      with IH(6) Suc show ?thesis by simp
    qed
  qed
  show ?case
    by (rule exI [of _ "w # ws"], rule exI [of _ "?r # rs"]) (use IH r1 step in simp)
qed


lemma report_of_succeeded: "(report_of res = UploadSucceeded) = (res = Returned True)"
  by (cases res rule: report_of.cases) simp_all

lemma partly_failing_batch:
  "batch_upload_csvs True (file_exists partly_failing_cloud) uploader_call partly_failing_cloud =
     Some (True,
           \<lparr>success_count = 2, total_files = 4,
            reports = [(''warehouse_movements.csv'', UploadFailed), (''items_inventory.csv'', Skipped),
                       (''purchase_orders.csv'', UploadSucceeded), (''factura_items.csv'', UploadSucceeded)]\<rparr>,
           partly_failing_cloud)"
proof -
  have ex: "\<not> file_exists partly_failing_cloud ''items_inventory.csv''"
      "file_exists partly_failing_cloud ''warehouse_movements.csv''"
      "file_exists partly_failing_cloud ''purchase_orders.csv''"
      "file_exists partly_failing_cloud ''factura_items.csv''"
    by (simp_all add: partly_failing_cloud_def)
  show ?thesis
    by (simp add: batch_upload_csvs_def TABLE_MAPPING_def PROJECT_ID_def DATASET_ID_def
        ex partly_failing_uploads)
qed

section \<open>Properties of the load job\<close>

lemma dataset_calls_no_load:
  "fold (apply_call wh) (snd (create_dataset_if_not_exists env dataset_id)) rows = rows"
  by (cases "get_dataset env (client_project env @ ''.'' @ dataset_id)")
     (simp_all add: create_dataset_if_not_exists_def Let_def)

lemma warehouse_cloud_simps:
  "file_exists (warehouse_cloud wh) = file_exists (services wh)"
  "read_csv_dtypes (warehouse_cloud wh) = read_csv_dtypes (services wh)"
  "client_project (warehouse_cloud wh) = client_project (services wh)"
  "get_dataset (warehouse_cloud wh) = get_dataset (services wh)"
  "create_dataset (warehouse_cloud wh) = create_dataset (services wh)"
  "get_table (warehouse_cloud wh) = get_table (services wh)"
  "load_table_from_file (warehouse_cloud wh) csv_file table_ref config =
     fst (run_load_job (rows_accepted wh csv_file config) (write_disposition config)
            (table_rows wh table_ref) (artifact_rows wh csv_file))"
  by (simp_all add: warehouse_cloud_def)

lemma warehouse_cloud_dataset:
  "create_dataset_if_not_exists (warehouse_cloud wh) d = create_dataset_if_not_exists (services wh) d"
  unfolding create_dataset_if_not_exists_def warehouse_cloud_simps by (rule refl)

lemma warehouse_cloud_schema:
  "determine_schema (warehouse_cloud wh) csv_file t schema auto
     = determine_schema (services wh) csv_file t schema auto"
  unfolding determine_schema_def warehouse_cloud_simps by (rule refl)

lemma write_disposition_load_config [simp]:
  "write_disposition (load_config wd schema' auto skip delim enc) = wd"
  by (simp add: load_config_def)

lemma load_artifact_submitted:
  assumes parts: "split_on CHR ''.'' table_id = [p, d, t]"
    and ex: "file_exists (services wh) csv_file"
    and ds: "fst (create_dataset_if_not_exists (services wh) d)"
    and sc: "determine_schema (services wh) csv_file t schema auto = Some schema'"
  shows "table_rows (snd (load_artifact wh csv_file table_id wd schema auto skip delim enc))
           = (table_rows wh)((p, d, t) :=
                snd (run_load_job (rows_accepted wh csv_file (load_config wd schema' auto skip delim enc)) wd
                       (table_rows wh (p, d, t)) (artifact_rows wh csv_file)))"
    and "returned_value (fst (load_artifact wh csv_file table_id wd schema auto skip delim enc))
           = (fst (run_load_job (rows_accepted wh csv_file (load_config wd schema' auto skip delim enc)) wd
                     (table_rows wh (p, d, t)) (artifact_rows wh csv_file)) = JobDone
              \<and> get_table (services wh) (p, d, t))"
proof -
  obtain calls where c: "create_dataset_if_not_exists (services wh) d = (True, calls)"
    using ds by (cases "create_dataset_if_not_exists (services wh) d") simp
  from dataset_calls_no_load [of wh "services wh" d] c
  have f: "\<And>rows. fold (apply_call wh) calls rows = rows" by simp
  let ?j = "run_load_job (rows_accepted wh csv_file (load_config wd schema' auto skip delim enc)) wd
                       (table_rows wh (p, d, t)) (artifact_rows wh csv_file)"
  show "table_rows (snd (load_artifact wh csv_file table_id wd schema auto skip delim enc))
           = (table_rows wh)((p, d, t) := snd ?j)"
    by (cases "fst ?j")
       (simp_all add: load_artifact_def upload_csv_to_table_def parts ex c sc f Let_def
          warehouse_cloud_simps warehouse_cloud_dataset warehouse_cloud_schema)
  show "returned_value (fst (load_artifact wh csv_file table_id wd schema auto skip delim enc))
           = (fst ?j = JobDone \<and> get_table (services wh) (p, d, t))"
    by (cases "fst ?j")
       (simp_all add: load_artifact_def upload_csv_to_table_def parts ex c sc f Let_def
          returned_value_def
          warehouse_cloud_simps warehouse_cloud_dataset warehouse_cloud_schema)
qed

lemma load_artifact_not_submitted:
  assumes parts: "split_on CHR ''.'' table_id = [p, d, t]"
    and no: "\<not> file_exists (services wh) csv_file \<or> \<not> fst (create_dataset_if_not_exists (services wh) d)
             \<or> determine_schema (services wh) csv_file t schema auto = None"
  shows "table_rows (snd (load_artifact wh csv_file table_id wd schema auto skip delim enc)) = table_rows wh"
    and "\<not> returned_value (fst (load_artifact wh csv_file table_id wd schema auto skip delim enc))"
proof -
  obtain ok calls where c: "create_dataset_if_not_exists (services wh) d = (ok, calls)"
    by (cases "create_dataset_if_not_exists (services wh) d")
  from dataset_calls_no_load [of wh "services wh" d] c
  have f: "\<And>rows. fold (apply_call wh) calls rows = rows" by simp
  have "table_rows (snd (load_artifact wh csv_file table_id wd schema auto skip delim enc)) = table_rows wh
      \<and> \<not> returned_value (fst (load_artifact wh csv_file table_id wd schema auto skip delim enc))"
  proof (cases "file_exists (services wh) csv_file")
    case False
    then show ?thesis
      by (simp add: load_artifact_def upload_csv_to_table_def warehouse_cloud_simps returned_value_def)
  next
    case ex: True
    show ?thesis
    proof (cases ok)
      case False
      with ex c f show ?thesis
        by (simp add: load_artifact_def upload_csv_to_table_def parts warehouse_cloud_simps
            warehouse_cloud_dataset returned_value_def)
    next
      case True
      with no ex c have "determine_schema (services wh) csv_file t schema auto = None" by simp
      with ex c f True show ?thesis
        by (simp add: load_artifact_def upload_csv_to_table_def parts warehouse_cloud_simps
            warehouse_cloud_dataset warehouse_cloud_schema returned_value_def)
    qed
  qed
  then show "table_rows (snd (load_artifact wh csv_file table_id wd schema auto skip delim enc)) = table_rows wh"
    and "\<not> returned_value (fst (load_artifact wh csv_file table_id wd schema auto skip delim enc))"
    by simp_all
qed

lemma upload_true_job_done:
  assumes parts: "split_on CHR ''.'' table_id = [p, d, t]"
    and ret: "returned_value (fst (upload_csv_to_table env csv_file table_id wd schema auto skip delim enc))"
  shows "\<exists>config. submitted_jobs (snd (upload_csv_to_table env csv_file table_id wd schema auto skip delim enc)) = [config]
           \<and> write_disposition config = wd
           \<and> load_table_from_file env csv_file (p, d, t) config = JobDone"
proof -
  from ret have ex: "file_exists env csv_file"
    by (auto simp: upload_csv_to_table_def returned_value_def split: if_splits)
  obtain ok calls where c: "create_dataset_if_not_exists env d = (ok, calls)"
    by (cases "create_dataset_if_not_exists env d")
  with create_dataset_no_jobs [of env d] have nj: "submitted_jobs calls = []" by simp
  from ret ex c parts have ok: ok
    by (cases ok) (simp_all add: upload_csv_to_table_def returned_value_def)
  from ret ex c parts ok obtain schema' where sc: "determine_schema env csv_file t schema auto = Some schema'"
    by (cases "determine_schema env csv_file t schema auto")
       (simp_all add: upload_csv_to_table_def returned_value_def)
  let ?config = "load_config wd schema' auto skip delim enc"
  from ret ex c parts ok sc have jd: "load_table_from_file env csv_file (p, d, t) ?config = JobDone"
    by (cases "load_table_from_file env csv_file (p, d, t) ?config")
       (simp_all add: upload_csv_to_table_def returned_value_def Let_def)
  with jd ex c parts ok sc nj
  have "submitted_jobs (snd (upload_csv_to_table env csv_file table_id wd schema auto skip delim enc)) = [?config]"
    by (simp add: upload_csv_to_table_def Let_def submitted_jobs_append submitted_jobs_simps)
  with jd show ?thesis by simp
qed

lemma submitted_jobs_disposition:
  "config \<in> set (submitted_jobs (snd (upload_csv_to_table env csv_file table_id wd schema auto skip delim enc)))
     \<Longrightarrow> write_disposition config = wd"
  using upload_jobs [of env csv_file table_id wd schema auto skip delim enc] by auto

section \<open>Claims\<close>

text \<open>
  Claim C10. For every input batch the inventory normalizer returns normally, with exactly
  one output row per input record, in the order of the records; the row of the \<open>i\<close>-th
  record has exactly the six columns id, name, initial_quantity, initial_quantity_date,
  final_available_quantity, photo_url, in that order, and each column holds the value its
  extraction produced, or null when the extraction raised.
\<close>

theorem process_items_one_row_per_record:
  "\<exists>rows. process_items_data items = Inr rows
     \<and> length rows = length items
     \<and> (\<forall>i < length items.
          map fst (rows ! i) = items_columns
        \<and> map snd (rows ! i) = map value_or_null (item_fields (items ! i)))"
proof -
  have "process_items_data items = Inr (map (\<lambda>item. projr (item_row item)) items)"
    by (simp add: process_items_data_def process_items_loop_eq)
  moreover have "map fst (projr (item_row item)) = items_columns
      \<and> map snd (projr (item_row item)) = map value_or_null (item_fields item)" for item
    by (simp add: item_row_eq items_columns_def) (simp add: item_fields_def)
  ultimately show ?thesis by simp
qed

theorem process_items_one_row_per_record_witness:
  "\<exists>rows. process_items_data [JObj [(''id'', JInt 7), (''images'', JList [])], JNull] = Inr rows
     \<and> length rows = 2
     \<and> map fst (rows ! 0) = items_columns
     \<and> map snd (rows ! 0) = [JInt 7, JNull, JNull, JNull, JNull, JNull]
     \<and> map fst (rows ! 1) = items_columns
     \<and> map snd (rows ! 1) = [JNull, JNull, JNull, JNull, JNull, JNull]"
  using process_items_one_row_per_record
    [of "[JObj [(''id'', JInt 7), (''images'', JList [])], JNull]"]
  by (simp add: item_fields_def value_or_null_def bindE_def all_less_two numeral_2_eq_2)

text \<open>
  Claim C1, as the code has it. The rows of a batch are the rows of its records, in order.
  A warehouse transfer whose \<^verbatim>\<open>items\<close> is a list of \<open>k \<ge> 1\<close> entries yields exactly
  \<open>k\<close> rows, and a transfer without the key \<^verbatim>\<open>items\<close> yields exactly one row, which
  carries the three transfer-level columns only (the item-level columns are absent from
  it). Purchase orders and invoices have no such row: a purchase order with an
  \<^verbatim>\<open>id\<close>, a readable warehouse and \<open>k\<close> dict items yields exactly \<open>k\<close> rows, an invoice
  with a readable warehouse and \<open>k\<close> dict items yields exactly \<open>k\<close> rows, and so either
  yields no row when \<open>k = 0\<close>.
\<close>

theorem nested_items_row_counts:
  "process_warehouse_transfers_data ts =
     Inr (concat (map (record_rows process_warehouse_transfers_data) ts))
   \<and> (subscript t ''items'' = Inr (JList its) \<and> its \<noteq> [] \<longrightarrow>
        length (record_rows process_warehouse_transfers_data t) = length its)
   \<and> (subscript t' ''items'' = Inl KeyError \<longrightarrow>
        (\<exists>info. process_warehouse_transfers_data [t'] = Inr [info]
               \<and> map fst info = transfer_columns))
   \<and> (process_purchase_orders_data orders = Inr prows \<longrightarrow>
        prows = concat (map (record_rows process_purchase_orders_data) orders))
   \<and> (subscript order ''id'' = Inr order_id \<and> order_warehouse_name order = Inr warehouse_name
        \<and> order_purchases_items order = Inr (JList pits) \<and> (\<forall>item \<in> set pits. is_obj item) \<longrightarrow>
        (\<exists>rows. process_purchase_orders_data [order] = Inr rows \<and> length rows = length pits))
   \<and> (process_invoice_data invoices = Inr irows \<longrightarrow>
        irows = concat (map (record_rows process_invoice_data) invoices))
   \<and> (is_obj invoice \<and> invoice_warehouse_name invoice = Inr iwarehouse_name
        \<and> dict_get invoice ''items'' (JList []) = Inr (JList iits) \<and> (\<forall>item \<in> set iits. is_obj item) \<longrightarrow>
        (\<exists>rows. process_invoice_data [invoice] = Inr rows \<and> length rows = length iits))"
proof (intro conjI impI)
  show "process_warehouse_transfers_data ts =
     Inr (concat (map (record_rows process_warehouse_transfers_data) ts))"
    by (rule transfers_concat)
next
  assume "subscript t ''items'' = Inr (JList its) \<and> its \<noteq> []"
  then have "bindE (subscript t ''items'') py_iter = Inr its" by (simp add: bindE_def)
  from process_transfer_items [OF this]
  show "length (record_rows process_warehouse_transfers_data t) = length its"
    by (simp add: record_rows_transfers)
next
  assume "subscript t' ''items'' = Inl KeyError"
  then have "bindE (subscript t' ''items'') py_iter = Inl KeyError" by (simp add: bindE_def)
  from process_transfer_no_items [OF this]
  show "\<exists>info. process_warehouse_transfers_data [t'] = Inr [info] \<and> map fst info = transfer_columns"
    by (simp add: transfers_single transfer_columns_def transfer_fields_def)
next
  assume "process_purchase_orders_data orders = Inr prows"
  then show "prows = concat (map (record_rows process_purchase_orders_data) orders)"
    by (rule purchases_concat)
next
  assume a: "subscript order ''id'' = Inr order_id \<and> order_warehouse_name order = Inr warehouse_name
        \<and> order_purchases_items order = Inr (JList pits) \<and> (\<forall>item \<in> set pits. is_obj item)"
  then have "bindE (order_purchases_items order) py_iter = Inr pits" by (simp add: bindE_def)
  with a have "process_order order [] = Inr (map (purchase_row order order_id warehouse_name) pits)"
    by (intro process_order_rows) simp_all
  then show "\<exists>rows. process_purchase_orders_data [order] = Inr rows \<and> length rows = length pits"
    by (simp add: purchases_single)
next
  assume "process_invoice_data invoices = Inr irows"
  then show "irows = concat (map (record_rows process_invoice_data) invoices)"
    by (rule invoices_concat)
next
  assume a: "is_obj invoice \<and> invoice_warehouse_name invoice = Inr iwarehouse_name
        \<and> dict_get invoice ''items'' (JList []) = Inr (JList iits) \<and> (\<forall>item \<in> set iits. is_obj item)"
  then have "bindE (dict_get invoice ''items'' (JList [])) py_iter = Inr iits" by (simp add: bindE_def)
  with a have "process_invoice invoice [] = Inr (map (invoice_row invoice iwarehouse_name) iits)"
    by (intro process_invoice_rows) simp_all
  then show "\<exists>rows. process_invoice_data [invoice] = Inr rows \<and> length rows = length iits"
    by (simp add: invoices_single)
qed

text \<open>Witness of C1: a transfer with two items, a transfer without the key, a purchase
  order and an invoice with one item each, and one of each with an empty item list.\<close>

theorem nested_items_row_counts_witness:
  "subscript (JObj [(''date'', JStr ''2025-08-01''), (''items'', JList [JObj [(''id'', JInt 1)], JObj []])]) ''items''
     = Inr (JList [JObj [(''id'', JInt 1)], JObj []])
   \<and> length (record_rows process_warehouse_transfers_data
        (JObj [(''date'', JStr ''2025-08-01''), (''items'', JList [JObj [(''id'', JInt 1)], JObj []])])) = 2
   \<and> subscript (JObj [(''date'', JStr ''2025-08-02'')]) ''items'' = Inl KeyError
   \<and> (\<exists>info. process_warehouse_transfers_data [JObj [(''date'', JStr ''2025-08-02'')]] = Inr [info]
          \<and> map fst info = transfer_columns)
   \<and> process_purchase_orders_data [JObj [(''id'', JInt 1), (''items'', JList [])]] = Inr []
   \<and> [] = concat (map (record_rows process_purchase_orders_data) [JObj [(''id'', JInt 1), (''items'', JList [])]])
   \<and> subscript (JObj [(''id'', JInt 4), (''items'', JList [JObj [(''price'', JInt 3)]])]) ''id'' = Inr (JInt 4)
   \<and> order_warehouse_name (JObj [(''id'', JInt 4), (''items'', JList [JObj [(''price'', JInt 3)]])]) = Inr JNull
   \<and> order_purchases_items (JObj [(''id'', JInt 4), (''items'', JList [JObj [(''price'', JInt 3)]])])
        = Inr (JList [JObj [(''price'', JInt 3)]])
   \<and> (\<exists>rows. process_purchase_orders_data [JObj [(''id'', JInt 4), (''items'', JList [JObj [(''price'', JInt 3)]])]] = Inr rows
          \<and> length rows = 1)
   \<and> process_invoice_data [JObj [(''id'', JInt 1), (''items'', JList [])]] = Inr []
   \<and> [] = concat (map (record_rows process_invoice_data) [JObj [(''id'', JInt 1), (''items'', JList [])]])
   \<and> invoice_warehouse_name (JObj [(''id'', JInt 7), (''items'', JList [JObj [(''id'', JInt 5)]])]) = Inr (JStr ''Unknown'')
   \<and> dict_get (JObj [(''id'', JInt 7), (''items'', JList [JObj [(''id'', JInt 5)]])]) ''items'' (JList [])
        = Inr (JList [JObj [(''id'', JInt 5)]])
   \<and> (\<exists>rows. process_invoice_data [JObj [(''id'', JInt 7), (''items'', JList [JObj [(''id'', JInt 5)]])]] = Inr rows
          \<and> length rows = 1)"
proof -
  have p: "process_purchase_orders_data [JObj [(''id'', JInt 1), (''items'', JList [])]] = Inr []"
    by (simp add: process_purchase_orders_data_def process_order_def order_try_block_def
      order_warehouse_name_def order_purchases_items_def bindE_def)
  have i: "process_invoice_data [JObj [(''id'', JInt 1), (''items'', JList [])]] = Inr []"
    by (simp add: process_invoice_data_def process_invoice_def invoice_try_block_def
      invoice_warehouse_name_def bindE_def)
  show ?thesis
    using nested_items_row_counts
      [where ts = "[JObj [(''date'', JStr ''2025-08-01''), (''items'', JList [JObj [(''id'', JInt 1)], JObj []])]]"
         and t = "JObj [(''date'', JStr ''2025-08-01''), (''items'', JList [JObj [(''id'', JInt 1)], JObj []])]"
         and its = "[JObj [(''id'', JInt 1)], JObj []]"
         and t' = "JObj [(''date'', JStr ''2025-08-02'')]"
         and orders = "[JObj [(''id'', JInt 1), (''items'', JList [])]]" and prows = "[]"
         and order = "JObj [(''id'', JInt 4), (''items'', JList [JObj [(''price'', JInt 3)]])]"
         and order_id = "JInt 4" and warehouse_name = JNull and pits = "[JObj [(''price'', JInt 3)]]"
         and invoices = "[JObj [(''id'', JInt 1), (''items'', JList [])]]" and irows = "[]"
         and invoice = "JObj [(''id'', JInt 7), (''items'', JList [JObj [(''id'', JInt 5)]])]"
         and iwarehouse_name = "JStr ''Unknown''" and iits = "[JObj [(''id'', JInt 5)]]"]
      p i
    by (simp add: order_warehouse_name_def order_purchases_items_def invoice_warehouse_name_def bindE_def)
qed

text \<open>
  Counterexample to C1 as stated: a purchase order, an invoice and a warehouse transfer
  whose item list is empty each yield no row at all, where the claim promises one row
  with null item-level fields.
\<close>

theorem zero_items_yield_no_row:
  "process_purchase_orders_data [JObj [(''id'', JInt 1), (''items'', JList [])]] = Inr []
   \<and> process_invoice_data [JObj [(''id'', JInt 1), (''items'', JList [])]] = Inr []
   \<and> process_warehouse_transfers_data [JObj [(''date'', JStr ''2025-08-01''), (''items'', JList [])]] = Inr []"
  by (simp add: process_purchase_orders_data_def process_order_def order_try_block_def
      order_warehouse_name_def order_purchases_items_def
      process_invoice_data_def process_invoice_def invoice_try_block_def invoice_warehouse_name_def
      process_warehouse_transfers_data_def process_transfer_def transfer_try_items_def
      transfer_info_of_eq bindE_def)

text \<open>
  Claim C2, as the code has it. In the purchase-order normalizer, over records that are
  dicts, no failure is fatal: the normalizer returns, and its rows are the rows of each
  record on its own, in order. A purchase item whose key is missing gets null in that
  column and leaves the other columns of its row as they are (\<open>purchase_row\<close>); a missing
  or null \<^verbatim>\<open>warehouse\<close> gives a null warehouse name; an order without \<^verbatim>\<open>id\<close> is skipped
  as a whole, and the batch is processed as if the order were not there. In the invoice
  normalizer the rows are those of each invoice on its own whenever it returns; a missing
  item key gives null (\<open>invoice_row\<close>), a missing \<^verbatim>\<open>warehouse\<close> gives the name
  \<^verbatim>\<open>"Unknown"\<close>, and an invoice whose items cannot be iterated (TypeError) is skipped
  without effect on the other invoices.
\<close>

theorem record_failures_isolated:
  "((\<forall>order \<in> set orders. is_obj order) \<longrightarrow>
      process_purchase_orders_data orders =
        Inr (concat (map (record_rows process_purchase_orders_data) orders)))
   \<and> (subscript order ''id'' = Inr order_id \<and> order_warehouse_name order = Inr warehouse_name
        \<and> order_purchases_items order = Inr (JList pits) \<and> (\<forall>item \<in> set pits. is_obj item) \<longrightarrow>
        process_purchase_orders_data [order] = Inr (map (purchase_row order order_id warehouse_name) pits))
   \<and> (map_of kvs ''warehouse'' = None \<or> map_of kvs ''warehouse'' = Some JNull \<longrightarrow>
        order_warehouse_name (JObj kvs) = Inr JNull)
   \<and> (subscript order' ''id'' = Inl KeyError \<longrightarrow>
        process_purchase_orders_data (xs @ order' # ys) = process_purchase_orders_data (xs @ ys))
   \<and> (process_invoice_data invoices = Inr irows \<longrightarrow>
        irows = concat (map (record_rows process_invoice_data) invoices))
   \<and> (is_obj invoice \<and> invoice_warehouse_name invoice = Inr iwarehouse_name
        \<and> dict_get invoice ''items'' (JList []) = Inr (JList iits) \<and> (\<forall>item \<in> set iits. is_obj item) \<longrightarrow>
        process_invoice_data [invoice] = Inr (map (invoice_row invoice iwarehouse_name) iits))
   \<and> (map_of ikvs ''warehouse'' = None \<longrightarrow>
        invoice_warehouse_name (JObj ikvs) = Inr (JStr ''Unknown''))
   \<and> (is_obj invoice' \<and> invoice_warehouse_name invoice' = Inr iwarehouse_name'
        \<and> bindE (dict_get invoice' ''items'' (JList [])) py_iter = Inl e \<longrightarrow>
        process_invoice_data (ixs @ invoice' # iys) = process_invoice_data (ixs @ iys))"
proof (intro conjI impI)
  assume "\<forall>order \<in> set orders. is_obj order"
  from process_purchase_orders_data_total [OF this]
  obtain rows where r: "process_purchase_orders_data orders = Inr rows" by blast
  from purchases_concat [OF r] r
  show "process_purchase_orders_data orders =
        Inr (concat (map (record_rows process_purchase_orders_data) orders))" by simp
next
  assume a: "subscript order ''id'' = Inr order_id \<and> order_warehouse_name order = Inr warehouse_name
        \<and> order_purchases_items order = Inr (JList pits) \<and> (\<forall>item \<in> set pits. is_obj item)"
  then have "bindE (order_purchases_items order) py_iter = Inr pits" by (simp add: bindE_def)
  with a have "process_order order [] = Inr (map (purchase_row order order_id warehouse_name) pits)"
    by (intro process_order_rows) simp_all
  then show "process_purchase_orders_data [order] = Inr (map (purchase_row order order_id warehouse_name) pits)"
    by (simp add: purchases_single)
next
  assume "map_of kvs ''warehouse'' = None \<or> map_of kvs ''warehouse'' = Some JNull"
  then show "order_warehouse_name (JObj kvs) = Inr JNull"
    by (rule order_warehouse_name_null)
next
  assume "subscript order' ''id'' = Inl KeyError"
  from process_order_no_id [OF this] have "process_purchase_orders_data [order'] = Inr []"
    by (simp add: purchases_single)
  then show "process_purchase_orders_data (xs @ order' # ys) = process_purchase_orders_data (xs @ ys)"
    by (rule purchases_skip)
next
  assume "process_invoice_data invoices = Inr irows"
  then show "irows = concat (map (record_rows process_invoice_data) invoices)"
    by (rule invoices_concat)
next
  assume a: "is_obj invoice \<and> invoice_warehouse_name invoice = Inr iwarehouse_name
        \<and> dict_get invoice ''items'' (JList []) = Inr (JList iits) \<and> (\<forall>item \<in> set iits. is_obj item)"
  then have "bindE (dict_get invoice ''items'' (JList [])) py_iter = Inr iits" by (simp add: bindE_def)
  with a have "process_invoice invoice [] = Inr (map (invoice_row invoice iwarehouse_name) iits)"
    by (intro process_invoice_rows) simp_all
  then show "process_invoice_data [invoice] = Inr (map (invoice_row invoice iwarehouse_name) iits)"
    by (simp add: invoices_single)
next
  assume "map_of ikvs ''warehouse'' = None"
  then show "invoice_warehouse_name (JObj ikvs) = Inr (JStr ''Unknown'')"
    by (rule invoice_warehouse_name_unknown)
next
  assume a: "is_obj invoice' \<and> invoice_warehouse_name invoice' = Inr iwarehouse_name'
        \<and> bindE (dict_get invoice' ''items'' (JList [])) py_iter = Inl e"
  then have "process_invoice invoice' [] = Inr []"
    by (intro process_invoice_skip [where warehouse_name = iwarehouse_name' and e = e]) simp_all
  then have "process_invoice_data [invoice'] = Inr []"
    by (simp add: invoices_single)
  then show "process_invoice_data (ixs @ invoice' # iys) = process_invoice_data (ixs @ iys)"
    by (rule invoices_skip)
qed

text \<open>Witness of C2, at concrete purchase orders and invoices.\<close>

theorem record_failures_isolated_witness:
  "is_obj (JObj [(''id'', JInt 1), (''items'', JList [])])
   \<and> is_obj (JObj [(''id'', JInt 4), (''items'', JList [JObj [(''price'', JInt 3)]])])
   \<and> process_purchase_orders_data
        [JObj [(''id'', JInt 1), (''items'', JList [])],
         JObj [(''id'', JInt 4), (''items'', JList [JObj [(''price'', JInt 3)]])]]
      = Inr (concat (map (record_rows process_purchase_orders_data)
          [JObj [(''id'', JInt 1), (''items'', JList [])],
           JObj [(''id'', JInt 4), (''items'', JList [JObj [(''price'', JInt 3)]])]]))
   \<and> subscript (JObj [(''id'', JInt 4), (''items'', JList [JObj [(''price'', JInt 3)]])]) ''id'' = Inr (JInt 4)
   \<and> order_warehouse_name (JObj [(''id'', JInt 4), (''items'', JList [JObj [(''price'', JInt 3)]])]) = Inr JNull
   \<and> order_purchases_items (JObj [(''id'', JInt 4), (''items'', JList [JObj [(''price'', JInt 3)]])])
        = Inr (JList [JObj [(''price'', JInt 3)]])
   \<and> process_purchase_orders_data [JObj [(''id'', JInt 4), (''items'', JList [JObj [(''price'', JInt 3)]])]]
      = Inr [[(''invoice_id'', JInt 4), (''added_inventory_date'', JNull), (''provider_id'', JInt 4),
              (''warehouse_name'', JNull), (''price_provider'', JInt 3), (''quantity'', JNull),
              (''item_id'', JNull), (''item_name'', JNull)]]
   \<and> map_of [(''id'', JInt 9), (''warehouse'', JNull)] ''warehouse'' = Some JNull
   \<and> order_warehouse_name (JObj [(''id'', JInt 9), (''warehouse'', JNull)]) = Inr JNull
   \<and> subscript (JObj [(''items'', JList [JObj [(''id'', JInt 5)]])]) ''id'' = Inl KeyError
   \<and> process_purchase_orders_data
        [JObj [(''id'', JInt 1), (''items'', JList [])],
         JObj [(''items'', JList [JObj [(''id'', JInt 5)]])],
         JObj [(''id'', JInt 2)]]
      = process_purchase_orders_data [JObj [(''id'', JInt 1), (''items'', JList [])], JObj [(''id'', JInt 2)]]
   \<and> process_invoice_data [JObj [(''id'', JInt 1), (''items'', JList [])]] = Inr []
   \<and> [] = concat (map (record_rows process_invoice_data) [JObj [(''id'', JInt 1), (''items'', JList [])]])
   \<and> invoice_warehouse_name (JObj [(''id'', JInt 7), (''items'', JList [JObj [(''id'', JInt 5)]])]) = Inr (JStr ''Unknown'')
   \<and> dict_get (JObj [(''id'', JInt 7), (''items'', JList [JObj [(''id'', JInt 5)]])]) ''items'' (JList [])
        = Inr (JList [JObj [(''id'', JInt 5)]])
   \<and> process_invoice_data [JObj [(''id'', JInt 7), (''items'', JList [JObj [(''id'', JInt 5)]])]]
      = Inr [[(''factura_id'', JInt 7), (''fecha_venta'', JNull), (''item_id'', JInt 5),
              (''item_name'', JNull), (''item_quantity'', JNull), (''warehouse_name'', JStr ''Unknown'')]]
   \<and> map_of [(''id'', JInt 8)] ''warehouse'' = None
   \<and> invoice_warehouse_name (JObj [(''id'', JInt 8)]) = Inr (JStr ''Unknown'')
   \<and> invoice_warehouse_name (JObj [(''id'', JInt 2), (''items'', JNull)]) = Inr (JStr ''Unknown'')
   \<and> bindE (dict_get (JObj [(''id'', JInt 2), (''items'', JNull)]) ''items'' (JList [])) py_iter = Inl TypeError
   \<and> process_invoice_data
        [JObj [(''id'', JInt 3)], JObj [(''id'', JInt 2), (''items'', JNull)], JObj [(''id'', JInt 6)]]
      = process_invoice_data [JObj [(''id'', JInt 3)], JObj [(''id'', JInt 6)]]"
proof -
  have i: "process_invoice_data [JObj [(''id'', JInt 1), (''items'', JList [])]] = Inr []"
    by (simp add: process_invoice_data_def process_invoice_def invoice_try_block_def
      invoice_warehouse_name_def bindE_def)
  show ?thesis
    using record_failures_isolated
      [where orders = "[JObj [(''id'', JInt 1), (''items'', JList [])],
                        JObj [(''id'', JInt 4), (''items'', JList [JObj [(''price'', JInt 3)]])]]"
         and order = "JObj [(''id'', JInt 4), (''items'', JList [JObj [(''price'', JInt 3)]])]"
         and order_id = "JInt 4" and warehouse_name = JNull and pits = "[JObj [(''price'', JInt 3)]]"
         and kvs = "[(''id'', JInt 9), (''warehouse'', JNull)]"
         and order' = "JObj [(''items'', JList [JObj [(''id'', JInt 5)]])]"
         and xs = "[JObj [(''id'', JInt 1), (''items'', JList [])]]" and ys = "[JObj [(''id'', JInt 2)]]"
         and invoices = "[JObj [(''id'', JInt 1), (''items'', JList [])]]" and irows = "[]"
         and invoice = "JObj [(''id'', JInt 7), (''items'', JList [JObj [(''id'', JInt 5)]])]"
         and iwarehouse_name = "JStr ''Unknown''" and iits = "[JObj [(''id'', JInt 5)]]"
         and ikvs = "[(''id'', JInt 8)]"
         and invoice' = "JObj [(''id'', JInt 2), (''items'', JNull)]"
         and iwarehouse_name' = "JStr ''Unknown''" and e = TypeError
         and ixs = "[JObj [(''id'', JInt 3)]]" and iys = "[JObj [(''id'', JInt 6)]]"]
      i
    by (simp add: order_warehouse_name_def order_purchases_items_def invoice_warehouse_name_def
        bindE_def purchase_row_def invoice_row_def value_or_null_def)
qed

text \<open>
  Counterexample to C2 as stated: an invoice whose \<^verbatim>\<open>warehouse\<close> is null raises
  AttributeError out of \<^verbatim>\<open>process_invoice_data\<close>, so the rows of the invoice before it are
  lost with the whole batch; and a purchase order without \<^verbatim>\<open>id\<close> loses all the rows of
  its items instead of getting a null in one column.
\<close>

theorem null_warehouse_aborts_invoice_batch:
  "process_invoice_data
     [JObj [(''id'', JInt 1), (''items'', JList [JObj [(''id'', JInt 5)]])],
      JObj [(''id'', JInt 2), (''warehouse'', JNull), (''items'', JList [JObj [(''id'', JInt 6)]])]]
     = Inl AttributeError
   \<and> process_purchase_orders_data [JObj [(''items'', JList [JObj [(''id'', JInt 5)]])]] = Inr []"
  by (simp add: process_invoice_data_def process_invoice_def invoice_try_block_def
      invoice_warehouse_name_def invoice_item_row_def
      process_purchase_orders_data_def process_order_def order_try_block_def bindE_def)

text \<open>
  Claim C5, as the code has it. The inventory normalizer gives every row the six columns
  of \<open>items_columns\<close> in that order, a failed extraction holding null. Every row of the
  purchase-order normalizer has the eight columns of \<open>purchase_columns\<close>, every row of the
  invoice normalizer the six of \<open>invoice_columns\<close>, in that order. A row of the transfer
  normalizer has either the six columns \<open>transfer_columns @ transfer_item_columns\<close> or the
  three columns \<open>transfer_columns\<close> alone: the rows built from the items of a transfer have
  the six, a failed extraction holding null, and the row of a transfer without the key
  \<^verbatim>\<open>items\<close> has the three, its item-level columns being omitted.
\<close>

theorem rows_share_columns:
  "process_items_data items =
     Inr (map (\<lambda>item. zip items_columns (map value_or_null (item_fields item))) items)
   \<and> (process_warehouse_transfers_data ts = Inr rows \<longrightarrow>
        (\<forall>r \<in> set rows. map fst r = transfer_columns @ transfer_item_columns
                       \<or> map fst r = transfer_columns))
   \<and> (subscript t ''items'' = Inr (JList its) \<and> its \<noteq> [] \<longrightarrow>
        process_warehouse_transfers_data [t] =
          Inr (map (\<lambda>item. zip (transfer_columns @ transfer_item_columns)
                 (map value_or_null (transfer_fields t @ transfer_item_fields item))) its))
   \<and> (subscript t' ''items'' = Inl KeyError \<longrightarrow>
        process_warehouse_transfers_data [t'] =
          Inr [zip transfer_columns (map value_or_null (transfer_fields t'))])
   \<and> (process_purchase_orders_data orders = Inr prows \<longrightarrow>
        (\<forall>r \<in> set prows. map fst r = purchase_columns))
   \<and> (process_invoice_data invoices = Inr irows \<longrightarrow>
        (\<forall>r \<in> set irows. map fst r = invoice_columns))"
proof (intro conjI impI)
  show "process_items_data items =
     Inr (map (\<lambda>item. zip items_columns (map value_or_null (item_fields item))) items)"
    by (rule items_rows)
next
  assume "process_warehouse_transfers_data ts = Inr rows"
  then show "\<forall>r \<in> set rows. map fst r = transfer_columns @ transfer_item_columns
                       \<or> map fst r = transfer_columns"
    by (rule transfers_keys)
next
  assume "subscript t ''items'' = Inr (JList its) \<and> its \<noteq> []"
  then have "bindE (subscript t ''items'') py_iter = Inr its" by (simp add: bindE_def)
  from process_transfer_items [OF this]
  show "process_warehouse_transfers_data [t] =
          Inr (map (\<lambda>item. zip (transfer_columns @ transfer_item_columns)
                 (map value_or_null (transfer_fields t @ transfer_item_fields item))) its)"
    by (simp add: transfers_single)
next
  assume "subscript t' ''items'' = Inl KeyError"
  then have "bindE (subscript t' ''items'') py_iter = Inl KeyError" by (simp add: bindE_def)
  from process_transfer_no_items [OF this]
  show "process_warehouse_transfers_data [t'] =
          Inr [zip transfer_columns (map value_or_null (transfer_fields t'))]"
    by (simp add: transfers_single)
next
  assume "process_purchase_orders_data orders = Inr prows"
  then show "\<forall>r \<in> set prows. map fst r = purchase_columns"
    by (rule purchases_keys)
next
  assume "process_invoice_data invoices = Inr irows"
  then show "\<forall>r \<in> set irows. map fst r = invoice_columns"
    by (rule invoices_keys)
qed

text \<open>Witness of C5, at a batch of two transfers, a purchase order and an invoice.\<close>

theorem rows_share_columns_witness:
  "process_warehouse_transfers_data
     [JObj [(''date'', JStr ''2025-08-01'')],
      JObj [(''date'', JStr ''2025-08-02''), (''items'', JList [JObj [(''id'', JInt 1)]])]]
   = Inr [[(''movement_date'', JStr ''2025-08-01''), (''warehouse_origin'', JNull),
           (''warehouse_destination'', JNull)],
          [(''movement_date'', JStr ''2025-08-02''), (''warehouse_origin'', JNull),
           (''warehouse_destination'', JNull), (''item_id'', JInt 1), (''item_name'', JNull),
           (''quantity'', JNull)]]
   \<and> [''movement_date'', ''warehouse_origin'', ''warehouse_destination''] = transfer_columns
   \<and> [''movement_date'', ''warehouse_origin'', ''warehouse_destination'', ''item_id'', ''item_name'',
       ''quantity''] = transfer_columns @ transfer_item_columns
   \<and> subscript (JObj [(''date'', JStr ''2025-08-02''), (''items'', JList [JObj [(''id'', JInt 1)]])]) ''items''
        = Inr (JList [JObj [(''id'', JInt 1)]])
   \<and> process_warehouse_transfers_data
        [JObj [(''date'', JStr ''2025-08-02''), (''items'', JList [JObj [(''id'', JInt 1)]])]]
      = Inr [zip (transfer_columns @ transfer_item_columns)
               [JStr ''2025-08-02'', JNull, JNull, JInt 1, JNull, JNull]]
   \<and> subscript (JObj [(''date'', JStr ''2025-08-01'')]) ''items'' = Inl KeyError
   \<and> process_warehouse_transfers_data [JObj [(''date'', JStr ''2025-08-01'')]]
      = Inr [zip transfer_columns [JStr ''2025-08-01'', JNull, JNull]]
   \<and> process_purchase_orders_data [JObj [(''id'', JInt 4), (''items'', JList [JObj [(''price'', JInt 3)]])]]
      = Inr [[(''invoice_id'', JInt 4), (''added_inventory_date'', JNull), (''provider_id'', JInt 4),
              (''warehouse_name'', JNull), (''price_provider'', JInt 3), (''quantity'', JNull),
              (''item_id'', JNull), (''item_name'', JNull)]]
   \<and> [''invoice_id'', ''added_inventory_date'', ''provider_id'', ''warehouse_name'', ''price_provider'',
       ''quantity'', ''item_id'', ''item_name''] = purchase_columns
   \<and> process_invoice_data [JObj [(''id'', JInt 7), (''items'', JList [JObj [(''id'', JInt 5)]])]]
      = Inr [[(''factura_id'', JInt 7), (''fecha_venta'', JNull), (''item_id'', JInt 5),
              (''item_name'', JNull), (''item_quantity'', JNull), (''warehouse_name'', JStr ''Unknown'')]]
   \<and> [''factura_id'', ''fecha_venta'', ''item_id'', ''item_name'', ''item_quantity'', ''warehouse_name'']
       = invoice_columns"
proof -
  have t: "process_warehouse_transfers_data
     [JObj [(''date'', JStr ''2025-08-01'')],
      JObj [(''date'', JStr ''2025-08-02''), (''items'', JList [JObj [(''id'', JInt 1)]])]]
   = Inr [[(''movement_date'', JStr ''2025-08-01''), (''warehouse_origin'', JNull),
           (''warehouse_destination'', JNull)],
          [(''movement_date'', JStr ''2025-08-02''), (''warehouse_origin'', JNull),
           (''warehouse_destination'', JNull), (''item_id'', JInt 1), (''item_name'', JNull),
           (''quantity'', JNull)]]"
    by (simp add: process_warehouse_transfers_data_def process_transfer_def transfer_try_items_def
      transfer_info_of_eq transfer_item_row_eq bindE_def value_or_null_def)
  have p: "process_purchase_orders_data [JObj [(''id'', JInt 4), (''items'', JList [JObj [(''price'', JInt 3)]])]]
      = Inr [[(''invoice_id'', JInt 4), (''added_inventory_date'', JNull), (''provider_id'', JInt 4),
              (''warehouse_name'', JNull), (''price_provider'', JInt 3), (''quantity'', JNull),
              (''item_id'', JNull), (''item_name'', JNull)]]"
    by (simp add: process_purchase_orders_data_def process_order_def order_try_block_def
      order_warehouse_name_def order_purchases_items_def purchase_item_row_obj bindE_def value_or_null_def)
  have i: "process_invoice_data [JObj [(''id'', JInt 7), (''items'', JList [JObj [(''id'', JInt 5)]])]]
      = Inr [[(''factura_id'', JInt 7), (''fecha_venta'', JNull), (''item_id'', JInt 5),
              (''item_name'', JNull), (''item_quantity'', JNull), (''warehouse_name'', JStr ''Unknown'')]]"
    by (simp add: process_invoice_data_def process_invoice_def invoice_try_block_def
      invoice_warehouse_name_def invoice_item_row_obj bindE_def value_or_null_def)
  show ?thesis
    using rows_share_columns
      [where items = "[]"
         and ts = "[JObj [(''date'', JStr ''2025-08-01'')],
                    JObj [(''date'', JStr ''2025-08-02''), (''items'', JList [JObj [(''id'', JInt 1)]])]]"
         and rows = "[[(''movement_date'', JStr ''2025-08-01''), (''warehouse_origin'', JNull),
                       (''warehouse_destination'', JNull)],
                      [(''movement_date'', JStr ''2025-08-02''), (''warehouse_origin'', JNull),
                       (''warehouse_destination'', JNull), (''item_id'', JInt 1), (''item_name'', JNull),
                       (''quantity'', JNull)]]"
         and t = "JObj [(''date'', JStr ''2025-08-02''), (''items'', JList [JObj [(''id'', JInt 1)]])]"
         and its = "[JObj [(''id'', JInt 1)]]"
         and t' = "JObj [(''date'', JStr ''2025-08-01'')]"
         and orders = "[JObj [(''id'', JInt 4), (''items'', JList [JObj [(''price'', JInt 3)]])]]"
         and prows = "[[(''invoice_id'', JInt 4), (''added_inventory_date'', JNull), (''provider_id'', JInt 4),
              (''warehouse_name'', JNull), (''price_provider'', JInt 3), (''quantity'', JNull),
              (''item_id'', JNull), (''item_name'', JNull)]]"
         and invoices = "[JObj [(''id'', JInt 7), (''items'', JList [JObj [(''id'', JInt 5)]])]]"
         and irows = "[[(''factura_id'', JInt 7), (''fecha_venta'', JNull), (''item_id'', JInt 5),
              (''item_name'', JNull), (''item_quantity'', JNull), (''warehouse_name'', JStr ''Unknown'')]]"]
      t p i
    by (simp add: transfer_fields_def transfer_item_fields_def value_or_null_def bindE_def
        transfer_columns_def transfer_item_columns_def purchase_columns_def invoice_columns_def)
qed

text \<open>
  Counterexample to C5 as stated: in one batch of transfers, the row of the transfer
  without items has three columns and the row of the other has six.
\<close>

theorem transfer_without_items_omits_columns:
  "process_warehouse_transfers_data
     [JObj [(''date'', JStr ''2025-08-01'')],
      JObj [(''date'', JStr ''2025-08-02''), (''items'', JList [JObj [(''id'', JInt 1)]])]]
   = Inr [[(''movement_date'', JStr ''2025-08-01''), (''warehouse_origin'', JNull),
           (''warehouse_destination'', JNull)],
          [(''movement_date'', JStr ''2025-08-02''), (''warehouse_origin'', JNull),
           (''warehouse_destination'', JNull), (''item_id'', JInt 1), (''item_name'', JNull),
           (''quantity'', JNull)]]"
  by (simp add: process_warehouse_transfers_data_def process_transfer_def transfer_try_items_def
      transfer_info_of_eq transfer_item_row_eq bindE_def value_or_null_def)




text \<open>
  Claim C4 fails on the code. The first page holds 30 purchase orders whose item lists
  are empty, so it yields no row and \<^verbatim>\<open>save_batch_to_csv\<close> is not called at offset 0; the
  second page yields one row, which is appended with \<^verbatim>\<open>is_first_batch = False\<close>. The file
  of the finished run has one data line and no header line. (When the first page yields a
  row the header is there exactly once: \<open>header_once_when_first_page_yields_rows\<close>.)
\<close>

theorem first_page_without_rows_loses_header:
  "fetch_purchase_orders_data empty_orders_then_one [] =
     Some (None,
       \<lparr>all_records = replicate 30 (JObj [(''id'', JInt 1), (''items'', JList [])])
                        @ [JObj [(''id'', JInt 2), (''items'', JList [JObj [(''id'', JInt 5)]])]],
        start = 30, requests = [0, 30],
        artifact = [Record [JInt 2, JNull, JInt 2, JNull, JNull, JNull, JInt 5, JNull]]\<rparr>)"
proof -
  have p: "process_purchase_orders_data [JObj [(''id'', JInt 2), (''items'', JList [JObj [(''id'', JInt 5)]])]]
      = Inr [[(''invoice_id'', JInt 2), (''added_inventory_date'', JNull), (''provider_id'', JInt 2),
              (''warehouse_name'', JNull), (''price_provider'', JNull), (''quantity'', JNull),
              (''item_id'', JInt 5), (''item_name'', JNull)]]"
    by (simp add: process_purchase_orders_data_def process_order_def order_try_block_def
      order_warehouse_name_def order_purchases_items_def purchase_item_row_obj bindE_def value_or_null_def)
  have "fetch_loop process_purchase_orders_data empty_orders_then_one (initial_state []) =
        fetch_loop process_purchase_orders_data empty_orders_then_one
          \<lparr>all_records = replicate 30 (JObj [(''id'', JInt 1), (''items'', JList [])]), start = 30,
           requests = [0], artifact = []\<rparr>"
    by (subst fetch_loop.simps)
       (simp add: initial_state_def empty_orders_then_one_def orders_without_items_no_rows BATCH_SIZE_def)
  also have "\<dots> = Some (None,
       \<lparr>all_records = replicate 30 (JObj [(''id'', JInt 1), (''items'', JList [])])
                        @ [JObj [(''id'', JInt 2), (''items'', JList [JObj [(''id'', JInt 5)]])]],
        start = 30, requests = [0, 30],
        artifact = [Record [JInt 2, JNull, JInt 2, JNull, JNull, JNull, JInt 5, JNull]]\<rparr>)"
    by (subst fetch_loop.simps)
       (simp add: empty_orders_then_one_def p BATCH_SIZE_def save_batch_to_csv_def df_columns_def
          df_cells_def)
  finally show ?thesis
    by (simp add: fetch_purchase_orders_data_def)
qed

text \<open>
  Claim C6, as the code has it. When the caller passes no explicit schema, a table name
  with a registered schema resolves to that schema whatever \<^verbatim>\<open>auto_detect_schema\<close> is.
  One call submits at most one load job, and no submitted job has both a schema and
  autodetect. When the caller passes no explicit schema, the job is governed by exactly
  one source, chosen in this order: the registered schema of the table name if there is
  one (autodetect off); otherwise, with \<^verbatim>\<open>auto_detect_schema\<close> false, the non-empty schema
  inferred from the file (autodetect off); otherwise autodetect alone, with no schema.
\<close>

theorem registered_schema_takes_precedence:
  "(get_predefined_schema table_name = Some registered \<longrightarrow>
      determine_schema env csv_file table_name None auto = Some (Some registered))
   \<and> length (submitted_jobs (snd (upload_csv_to_table env csv_file table_id wd schema auto skip delim enc))) \<le> 1
   \<and> (\<forall>config \<in> set (submitted_jobs
          (snd (upload_csv_to_table env csv_file table_id wd schema auto skip delim enc))).
        \<not> (autodetect config \<and> job_schema config \<noteq> None))
   \<and> (\<forall>config \<in> set (submitted_jobs
          (snd (upload_csv_to_table env csv_file table_id wd None auto skip delim enc))).
        (case get_predefined_schema (split_on CHR ''.'' table_id ! 2) of
           Some reg \<Rightarrow> job_schema config = Some reg \<and> \<not> autodetect config
         | None \<Rightarrow>
             if auto then job_schema config = None \<and> autodetect config
             else job_schema config = Some (infer_schema_from_csv (read_csv_dtypes env csv_file))
                  \<and> infer_schema_from_csv (read_csv_dtypes env csv_file) \<noteq> []
                  \<and> \<not> autodetect config))"
proof (intro conjI impI ballI)
  assume "get_predefined_schema table_name = Some registered"
  then show "determine_schema env csv_file table_name None auto = Some (Some registered)"
    by (simp add: determine_schema_def)
next
  show "length (submitted_jobs (snd (upload_csv_to_table env csv_file table_id wd schema auto skip delim enc))) \<le> 1"
    using upload_jobs [of env csv_file table_id wd schema auto skip delim enc] by auto
next
  fix config
  assume "config \<in> set (submitted_jobs
          (snd (upload_csv_to_table env csv_file table_id wd schema auto skip delim enc)))"
  with upload_jobs [of env csv_file table_id wd schema auto skip delim enc]
  obtain schema' where "config = load_config wd schema' auto skip delim enc" by auto
  then show "\<not> (autodetect config \<and> job_schema config \<noteq> None)"
    by (cases schema') (simp_all add: load_config_def)
next
  fix config
  assume "config \<in> set (submitted_jobs
          (snd (upload_csv_to_table env csv_file table_id wd None auto skip delim enc)))"
  with upload_jobs [of env csv_file table_id wd None auto skip delim enc]
  obtain p d t schema' where parts: "split_on CHR ''.'' table_id = [p, d, t]"
      and ds: "determine_schema env csv_file t None auto = Some schema'"
      and c: "config = load_config wd schema' auto skip delim enc" by auto
  from parts have t: "split_on CHR ''.'' table_id ! 2 = t" by simp
  show "case get_predefined_schema (split_on CHR ''.'' table_id ! 2) of
           Some reg \<Rightarrow> job_schema config = Some reg \<and> \<not> autodetect config
         | None \<Rightarrow>
             if auto then job_schema config = None \<and> autodetect config
             else job_schema config = Some (infer_schema_from_csv (read_csv_dtypes env csv_file))
                  \<and> infer_schema_from_csv (read_csv_dtypes env csv_file) \<noteq> []
                  \<and> \<not> autodetect config"
  proof (cases "get_predefined_schema t")
    case (Some reg)
    with ds have "schema' = Some reg" by (simp add: determine_schema_def)
    with Some registered_nonempty [OF Some] c t show ?thesis by (simp add: load_config_def)
  next
    case None
    with ds c t show ?thesis
      by (auto simp: determine_schema_def load_config_def Let_def split: if_splits)
  qed
qed

text \<open>Witness of C6: the table \<^verbatim>\<open>sales\<close> loaded with \<^verbatim>\<open>auto_detect_schema=True\<close> and no
  explicit schema.\<close>

theorem registered_schema_takes_precedence_witness:
  "get_predefined_schema ''sales'' =
     Some [(''sale_date'', ''DATE''), (''item_id'', ''INTEGER''), (''item_name'', ''STRING''),
           (''quantity'', ''INTEGER''), (''unit_price'', ''FLOAT''), (''total_amount'', ''FLOAT'')]
   \<and> determine_schema demo_cloud ''factura_items.csv'' ''sales'' None True =
       Some (Some [(''sale_date'', ''DATE''), (''item_id'', ''INTEGER''), (''item_name'', ''STRING''),
           (''quantity'', ''INTEGER''), (''unit_price'', ''FLOAT''), (''total_amount'', ''FLOAT'')])
   \<and> submitted_jobs (snd (upload_csv_to_table demo_cloud ''factura_items.csv'' ''proj.optistock.sales''
        ''WRITE_APPEND'' None True 1 '','' ''UTF-8''))
      = [load_config ''WRITE_APPEND'' (get_predefined_schema ''sales'') True 1 '','' ''UTF-8'']
   \<and> split_on CHR ''.'' ''proj.optistock.sales'' ! 2 = ''sales''
   \<and> job_schema (load_config ''WRITE_APPEND'' (get_predefined_schema ''sales'') True 1 '','' ''UTF-8'')
       = Some [(''sale_date'', ''DATE''), (''item_id'', ''INTEGER''), (''item_name'', ''STRING''),
           (''quantity'', ''INTEGER''), (''unit_price'', ''FLOAT''), (''total_amount'', ''FLOAT'')]
   \<and> \<not> autodetect (load_config ''WRITE_APPEND'' (get_predefined_schema ''sales'') True 1 '','' ''UTF-8'')"
proof -
  let ?reg = "[(''sale_date'', ''DATE''), (''item_id'', ''INTEGER''), (''item_name'', ''STRING''),
           (''quantity'', ''INTEGER''), (''unit_price'', ''FLOAT''), (''total_amount'', ''FLOAT'')]"
  have g: "get_predefined_schema ''sales'' = Some ?reg"
    by (simp add: get_predefined_schema_def schemas_def lower_def lower_char_def)
  have j: "submitted_jobs (snd (upload_csv_to_table demo_cloud ''factura_items.csv'' ''proj.optistock.sales''
        ''WRITE_APPEND'' None True 1 '','' ''UTF-8''))
      = [load_config ''WRITE_APPEND'' (get_predefined_schema ''sales'') True 1 '','' ''UTF-8'']"
    by (simp add: demo_upload_jobs determine_schema_def g)
  have sp: "split_on CHR ''.'' ''proj.optistock.sales'' ! 2 = ''sales''" by simp
  from registered_schema_takes_precedence
      [of "''sales''" ?reg demo_cloud "''factura_items.csv''" True "''proj.optistock.sales''"
          "''WRITE_APPEND''" None 1 "'',''" "''UTF-8''"] g j sp
  show ?thesis by simp
qed

text \<open>
  Counterexample to C6 as stated: the parameter \<^verbatim>\<open>schema\<close> of \<^verbatim>\<open>upload_csv_to_table\<close>
  bypasses the resolution. With an explicit schema the job for the registered table
  \<^verbatim>\<open>sales\<close> carries the caller's schema, not the registered one; with the explicit
  schema \<^verbatim>\<open>[]\<close> and \<^verbatim>\<open>auto_detect_schema=True\<close> the job carries neither a schema nor
  autodetect, so none of the three sources governs it.
\<close>

theorem explicit_schema_bypasses_registry:
  "get_predefined_schema ''sales'' =
     Some [(''sale_date'', ''DATE''), (''item_id'', ''INTEGER''), (''item_name'', ''STRING''),
           (''quantity'', ''INTEGER''), (''unit_price'', ''FLOAT''), (''total_amount'', ''FLOAT'')]
   \<and> submitted_jobs (snd (upload_csv_to_table demo_cloud ''factura_items.csv'' ''proj.optistock.sales''
        ''WRITE_APPEND'' (Some [(''x'', ''STRING'')]) True 1 '','' ''UTF-8''))
      = [\<lparr>skip_leading_rows = 1, field_delimiter = '','', encoding = ''UTF-8'',
          write_disposition = ''WRITE_APPEND'', autodetect = False,
          job_schema = Some [(''x'', ''STRING'')]\<rparr>]
   \<and> submitted_jobs (snd (upload_csv_to_table demo_cloud ''factura_items.csv'' ''proj.optistock.sales''
        ''WRITE_APPEND'' (Some []) True 1 '','' ''UTF-8''))
      = [\<lparr>skip_leading_rows = 1, field_delimiter = '','', encoding = ''UTF-8'',
          write_disposition = ''WRITE_APPEND'', autodetect = False, job_schema = None\<rparr>]"
  by (simp add: demo_upload_jobs determine_schema_def load_config_def)
     (simp add: get_predefined_schema_def schemas_def lower_def lower_char_def)

text \<open>
  Claim C7. A table identifier that does not split at its dots into exactly three parts
  makes \<^verbatim>\<open>upload_csv_to_table\<close> return False without a single call to the BigQuery
  client: no dataset lookup, no dataset creation, no load job, no table lookup. When the
  file exists the return is the one of the identifier check (otherwise the earlier check
  of the file has already returned False, also without a call).
\<close>

theorem malformed_table_id_makes_no_network_call:
  "length (split_on CHR ''.'' table_id) \<noteq> 3 \<Longrightarrow>
     snd (upload_csv_to_table env csv_file table_id wd schema auto skip delim enc) = []
   \<and> \<not> returned_value (fst (upload_csv_to_table env csv_file table_id wd schema auto skip delim enc))
   \<and> (file_exists env csv_file \<longrightarrow>
        fst (upload_csv_to_table env csv_file table_id wd schema auto skip delim enc) = InvalidTableId)"
  by (simp add: upload_bad_id returned_value_def)

text \<open>Witness of C7: the identifier \<^verbatim>\<open>proj.ds\<close> of two parts.\<close>

theorem malformed_table_id_makes_no_network_call_witness:
  "length (split_on CHR ''.'' ''proj.ds'') \<noteq> 3
   \<and> snd (upload_csv_to_table demo_cloud ''factura_items.csv'' ''proj.ds'' ''WRITE_APPEND'' None True 1 '','' ''UTF-8'') = []
   \<and> \<not> returned_value (fst (upload_csv_to_table demo_cloud ''factura_items.csv'' ''proj.ds'' ''WRITE_APPEND'' None True 1 '','' ''UTF-8''))
   \<and> file_exists demo_cloud ''factura_items.csv''
   \<and> fst (upload_csv_to_table demo_cloud ''factura_items.csv'' ''proj.ds'' ''WRITE_APPEND'' None True 1 '','' ''UTF-8'') = InvalidTableId"
proof -
  have h: "length (split_on CHR ''.'' ''proj.ds'') \<noteq> 3" by simp
  have f: "file_exists demo_cloud ''factura_items.csv''" by (simp add: demo_cloud_def)
  from malformed_table_id_makes_no_network_call [OF h, of demo_cloud "''factura_items.csv''"
      "''WRITE_APPEND''" None True 1 "'',''" "''UTF-8''"] h f
  show ?thesis by blast
qed

text \<open>
  Claim C8. In a run of \<^verbatim>\<open>batch_upload_csvs\<close> whose client was initialized, whatever the
  uploads do (return True, return False or raise) and whatever files exist, there is a
  sequence of worlds \<open>ws\<close>, from the initial world to the final one, such that for every
  entry \<open>i\<close> of \<^verbatim>\<open>TABLE_MAPPING\<close>: if its file exists the uploader is called on it, with the
  table identifier built from its table name, in the world \<open>ws ! i\<close> left by the entries
  before it whatever they returned, and the report of the entry is the outcome of that
  call (succeeded, failed, raised); if its file does not exist the entry is reported as
  skipped and the world is left as it was. So a failure or an exception of one entity's
  upload does not stop the uploads of the remaining entities, and each entity has its own
  report, in the order of the mapping. The returned status is True exactly when the call
  of at least one entity returned True; \<^verbatim>\<open>total_files\<close> counts the four entries and
  \<^verbatim>\<open>success_count\<close> the successful uploads.
\<close>

theorem batch_outcomes_independent:
  "batch_upload_csvs True ex up w = Some (status, st, w') \<Longrightarrow>
     (\<exists>ws. length ws = Suc (length TABLE_MAPPING) \<and> ws ! 0 = w \<and> ws ! length TABLE_MAPPING = w'
        \<and> length (reports st) = length TABLE_MAPPING
        \<and> (\<forall>i < length TABLE_MAPPING.
              reports st ! i =
                (fst (TABLE_MAPPING ! i),
                 if ex (fst (TABLE_MAPPING ! i))
                 then report_of (fst (up (ws ! i) (fst (TABLE_MAPPING ! i))
                                       (table_id_of (snd (TABLE_MAPPING ! i)))))
                 else Skipped)
            \<and> ws ! Suc i =
                (if ex (fst (TABLE_MAPPING ! i))
                 then snd (up (ws ! i) (fst (TABLE_MAPPING ! i)) (table_id_of (snd (TABLE_MAPPING ! i))))
                 else ws ! i))
        \<and> status = (\<exists>i < length TABLE_MAPPING. ex (fst (TABLE_MAPPING ! i))
              \<and> fst (up (ws ! i) (fst (TABLE_MAPPING ! i)) (table_id_of (snd (TABLE_MAPPING ! i))))
                  = Returned True))
   \<and> map fst (reports st) = map fst TABLE_MAPPING
   \<and> (\<forall>(csv_file, report) \<in> set (reports st). (report = Skipped) = (\<not> ex csv_file))
   \<and> total_files st = length TABLE_MAPPING
   \<and> success_count st = length (filter (\<lambda>(csv_file, report). report = UploadSucceeded) (reports st))
   \<and> status = (\<exists>csv_file. (csv_file, UploadSucceeded) \<in> set (reports st))"
proof -
  assume a: "batch_upload_csvs True ex up w = Some (status, st, w')"
  let ?st0 = "\<lparr>success_count = 0, total_files = 0, reports = []\<rparr>"
  let ?M = TABLE_MAPPING
  from a have u: "upload_entities ex up ?M w ?st0 = (st, w')"
    and s: "status = (0 < success_count st)"
    by (auto simp: batch_upload_csvs_def split: prod.splits)
  from upload_entities_reports [OF u] obtain rs where rs: "reports st = reports ?st0 @ rs"
      "map fst rs = map fst ?M"
      "\<forall>(f, r) \<in> set rs. (r = Skipped) = (\<not> ex f)"
      "total_files st = total_files ?st0 + length ?M"
      "success_count st = success_count ?st0 + length (filter (\<lambda>(f, r). r = UploadSucceeded) rs)"
    by blast
  then have r: "reports st = rs" by simp
  have cnt: "(0 < length (filter (\<lambda>(f, r). r = UploadSucceeded) rs)) = (\<exists>f. (f, UploadSucceeded) \<in> set rs)"
    by (auto simp: filter_empty_conv)
  with rs r s have old: "map fst (reports st) = map fst ?M
     \<and> (\<forall>(csv_file, report) \<in> set (reports st). (report = Skipped) = (\<not> ex csv_file))
     \<and> total_files st = length ?M
     \<and> success_count st = length (filter (\<lambda>(csv_file, report). report = UploadSucceeded) (reports st))
     \<and> status = (\<exists>csv_file. (csv_file, UploadSucceeded) \<in> set (reports st))"
    by simp
  from upload_entities_trace [OF u] obtain ws rs' where t: "length ws = Suc (length ?M)" "ws ! 0 = w"
      "ws ! length ?M = w'" "reports st = reports ?st0 @ rs'" "length rs' = length ?M"
      "\<forall>i < length ?M.
            rs' ! i = (fst (?M ! i),
                       if ex (fst (?M ! i))
                       then report_of (fst (up (ws ! i) (fst (?M ! i)) (table_id_of (snd (?M ! i)))))
                       else Skipped)
          \<and> ws ! Suc i = (if ex (fst (?M ! i))
                           then snd (up (ws ! i) (fst (?M ! i)) (table_id_of (snd (?M ! i))))
                           else ws ! i)"
    by blast
  from t(4) have r': "reports st = rs'" by simp
  have st: "status = (\<exists>i < length ?M. ex (fst (?M ! i))
              \<and> fst (up (ws ! i) (fst (?M ! i)) (table_id_of (snd (?M ! i)))) = Returned True)"
  proof -
    have "status = (\<exists>f. (f, UploadSucceeded) \<in> set rs')" using old r' by simp
    also have "\<dots> = (\<exists>i < length ?M. snd (rs' ! i) = UploadSucceeded)"
    proof
      assume "\<exists>f. (f, UploadSucceeded) \<in> set rs'"
      then obtain f i where "i < length rs'" "rs' ! i = (f, UploadSucceeded)"
        by (auto simp: in_set_conv_nth)
      with t(5) show "\<exists>i < length ?M. snd (rs' ! i) = UploadSucceeded" by auto
    next
      assume "\<exists>i < length ?M. snd (rs' ! i) = UploadSucceeded"
      then obtain i where i: "i < length rs'" "snd (rs' ! i) = UploadSucceeded"
        using t(5) by auto
      then have "(fst (rs' ! i), UploadSucceeded) = rs' ! i" by (cases "rs' ! i") simp
      with i(1) have "(fst (rs' ! i), UploadSucceeded) \<in> set rs'" by (metis nth_mem)
      then show "\<exists>f. (f, UploadSucceeded) \<in> set rs'" by blast
    qed
    also have "\<dots> = (\<exists>i < length ?M. ex (fst (?M ! i))
              \<and> fst (up (ws ! i) (fst (?M ! i)) (table_id_of (snd (?M ! i)))) = Returned True)"
    proof
      assume "\<exists>i < length ?M. snd (rs' ! i) = UploadSucceeded"
      then obtain i where i: "i < length ?M" "snd (rs' ! i) = UploadSucceeded" by blast
      from t(6) i(1) have "rs' ! i = (fst (?M ! i),
                       if ex (fst (?M ! i))
                       then report_of (fst (up (ws ! i) (fst (?M ! i)) (table_id_of (snd (?M ! i)))))
                       else Skipped)" by blast
      with i(2) have "ex (fst (?M ! i))
          \<and> fst (up (ws ! i) (fst (?M ! i)) (table_id_of (snd (?M ! i)))) = Returned True"
        by (cases "ex (fst (?M ! i))") (simp_all add: report_of_succeeded)
      with i(1) show "\<exists>i < length ?M. ex (fst (?M ! i))
              \<and> fst (up (ws ! i) (fst (?M ! i)) (table_id_of (snd (?M ! i)))) = Returned True"
        by blast
    next
      assume "\<exists>i < length ?M. ex (fst (?M ! i))
              \<and> fst (up (ws ! i) (fst (?M ! i)) (table_id_of (snd (?M ! i)))) = Returned True"
      then obtain i where i: "i < length ?M" "ex (fst (?M ! i))"
          "fst (up (ws ! i) (fst (?M ! i)) (table_id_of (snd (?M ! i)))) = Returned True" by blast
      from t(6) i(1) have "rs' ! i = (fst (?M ! i),
                       if ex (fst (?M ! i))
                       then report_of (fst (up (ws ! i) (fst (?M ! i)) (table_id_of (snd (?M ! i)))))
                       else Skipped)" by blast
      with i(2,3) have "snd (rs' ! i) = UploadSucceeded" by simp
      with i(1) show "\<exists>i < length ?M. snd (rs' ! i) = UploadSucceeded" by blast
    qed
    finally show ?thesis .
  qed
  have "\<exists>ws. length ws = Suc (length ?M) \<and> ws ! 0 = w \<and> ws ! length ?M = w'
        \<and> length (reports st) = length ?M
        \<and> (\<forall>i < length ?M.
              reports st ! i =
                (fst (?M ! i),
                 if ex (fst (?M ! i))
                 then report_of (fst (up (ws ! i) (fst (?M ! i)) (table_id_of (snd (?M ! i)))))
                 else Skipped)
            \<and> ws ! Suc i =
                (if ex (fst (?M ! i))
                 then snd (up (ws ! i) (fst (?M ! i)) (table_id_of (snd (?M ! i))))
                 else ws ! i))
        \<and> status = (\<exists>i < length ?M. ex (fst (?M ! i))
              \<and> fst (up (ws ! i) (fst (?M ! i)) (table_id_of (snd (?M ! i)))) = Returned True)"
    using t(1,2,3,5,6) r' st by blast
  with old show ?thesis by blast
qed

text \<open>Witness of C8: the upload of the movements file raises, the inventory file is
  missing, the upload of the purchases file returns False and the one of the invoices
  file returns True: the three existing files are all attempted, in three calls, and the
  status is True.\<close>

theorem batch_outcomes_independent_witness:
  "\<exists>status st w'.
     batch_upload_csvs True all_but_inventory flaky_uploader 0 = Some (status, st, w')
   \<and> status = True \<and> w' = 3
   \<and> st = \<lparr>success_count = 1, total_files = 4, reports = [(''warehouse_movements.csv'', UploadRaised), (''items_inventory.csv'', Skipped),
             (''purchase_orders.csv'', UploadFailed), (''factura_items.csv'', UploadSucceeded)]\<rparr>
   \<and> fst (flaky_uploader 0 ''warehouse_movements.csv'' (table_id_of ''warehouse_movements'')) = Raised
   \<and> fst (flaky_uploader 1 ''purchase_orders.csv'' (table_id_of ''purchase_orders'')) = Returned False
   \<and> \<not> all_but_inventory ''items_inventory.csv''
   \<and> (\<exists>ws. length ws = Suc (length TABLE_MAPPING) \<and> ws ! 0 = 0 \<and> ws ! length TABLE_MAPPING = w'
        \<and> length (reports st) = length TABLE_MAPPING
        \<and> (\<forall>i < length TABLE_MAPPING.
              reports st ! i =
                (fst (TABLE_MAPPING ! i),
                 if all_but_inventory (fst (TABLE_MAPPING ! i))
                 then report_of (fst (flaky_uploader (ws ! i) (fst (TABLE_MAPPING ! i))
                                       (table_id_of (snd (TABLE_MAPPING ! i)))))
                 else Skipped)
            \<and> ws ! Suc i =
                (if all_but_inventory (fst (TABLE_MAPPING ! i))
                 then snd (flaky_uploader (ws ! i) (fst (TABLE_MAPPING ! i))
                            (table_id_of (snd (TABLE_MAPPING ! i))))
                 else ws ! i))
        \<and> status = (\<exists>i < length TABLE_MAPPING. all_but_inventory (fst (TABLE_MAPPING ! i))
              \<and> fst (flaky_uploader (ws ! i) (fst (TABLE_MAPPING ! i))
                       (table_id_of (snd (TABLE_MAPPING ! i)))) = Returned True))
   \<and> map fst (reports st) = map fst TABLE_MAPPING
   \<and> total_files st = length TABLE_MAPPING
   \<and> success_count st
       = length (filter (\<lambda>(csv_file, report). report = UploadSucceeded) (reports st))
   \<and> status = (\<exists>csv_file. (csv_file, UploadSucceeded) \<in> set (reports st))"
proof -
  have b: "batch_upload_csvs True all_but_inventory flaky_uploader 0 =
     Some (True, \<lparr>success_count = 1, total_files = 4, reports = [(''warehouse_movements.csv'', UploadRaised), (''items_inventory.csv'', Skipped),
             (''purchase_orders.csv'', UploadFailed), (''factura_items.csv'', UploadSucceeded)]\<rparr>, 3)"
    by (simp add: batch_upload_csvs_def TABLE_MAPPING_def all_but_inventory_def flaky_uploader_def
        Let_def)
  have c: "fst (flaky_uploader 0 ''warehouse_movements.csv'' (table_id_of ''warehouse_movements'')) = Raised"
      "fst (flaky_uploader 1 ''purchase_orders.csv'' (table_id_of ''purchase_orders'')) = Returned False"
      "\<not> all_but_inventory ''items_inventory.csv''"
    by (simp_all add: flaky_uploader_def all_but_inventory_def)
  note t = batch_outcomes_independent [OF b]
  show ?thesis
    apply (rule exI [where x = True])
    apply (rule exI [where x = "\<lparr>success_count = 1, total_files = 4, reports = [(''warehouse_movements.csv'', UploadRaised), (''items_inventory.csv'', Skipped),
             (''purchase_orders.csv'', UploadFailed), (''factura_items.csv'', UploadSucceeded)]\<rparr>"])
    apply (rule exI [where x = 3])
    apply (intro conjI)
    apply (rule b refl c t [THEN conjunct1] t [THEN conjunct2, THEN conjunct1]
         t [THEN conjunct2, THEN conjunct2, THEN conjunct2, THEN conjunct1]
         t [THEN conjunct2, THEN conjunct2, THEN conjunct2, THEN conjunct2, THEN conjunct1]
         t [THEN conjunct2, THEN conjunct2, THEN conjunct2, THEN conjunct2, THEN conjunct2])+
    done
qed

text \<open>
  Claim C9. The loader's part: every load job that \<^verbatim>\<open>upload_csv_to_table\<close> submits carries
  the caller's write disposition unchanged, and the method returns True only when it
  submitted exactly one job, with that disposition, and the service completed it. Against
  the warehouse of the specification, for a load of an artifact with \<open>r\<close> data rows into a
  table with \<open>n\<close> rows: under \<^verbatim>\<open>WRITE_EMPTY\<close> on a non-empty table the load fails (the method
  returns False) and no table is changed; under \<^verbatim>\<open>WRITE_TRUNCATE\<close> the table has exactly \<open>r\<close>
  rows after the load, and under \<^verbatim>\<open>WRITE_APPEND\<close> exactly \<open>n + r\<close>, unless the load failed, in
  which case the method returns False and no table is changed; no other table is ever
  changed; and the load does succeed when the file exists, the dataset is available, a
  schema is determined, the rows are accepted, the table can be read back, and the
  disposition is \<^verbatim>\<open>WRITE_TRUNCATE\<close>, \<^verbatim>\<open>WRITE_APPEND\<close>, or \<^verbatim>\<open>WRITE_EMPTY\<close> on an empty table.
\<close>

theorem write_disposition_semantics:
  assumes parts: "split_on CHR ''.'' table_id = [p, d, t]"
    and run: "load_artifact wh csv_file table_id wd schema auto skip delim enc = (outcome, wh')"
    and n: "table_rows wh (p, d, t) = n"
    and r: "artifact_rows wh csv_file = r"
  shows
    "(\<forall>config \<in> set (submitted_jobs (snd (upload_csv_to_table env csv_file table_id wd schema auto skip delim enc))). write_disposition config = wd)
   \<and> (returned_value (fst (upload_csv_to_table env csv_file table_id wd schema auto skip delim enc)) \<longrightarrow>
        (\<exists>config. submitted_jobs (snd (upload_csv_to_table env csv_file table_id wd schema auto skip delim enc)) = [config]
           \<and> write_disposition config = wd
           \<and> load_table_from_file env csv_file (p, d, t) config = JobDone))
   \<and> (wd = ''WRITE_EMPTY'' \<and> 0 < n \<longrightarrow> \<not> returned_value outcome \<and> table_rows wh' = table_rows wh)
   \<and> (wd = ''WRITE_TRUNCATE'' \<longrightarrow>
        table_rows wh' (p, d, t) = r \<or> \<not> returned_value outcome \<and> table_rows wh' = table_rows wh)
   \<and> (wd = ''WRITE_APPEND'' \<longrightarrow>
        table_rows wh' (p, d, t) = n + r \<or> \<not> returned_value outcome \<and> table_rows wh' = table_rows wh)
   \<and> (\<forall>table_ref. table_ref \<noteq> (p, d, t) \<longrightarrow> table_rows wh' table_ref = table_rows wh table_ref)
   \<and> ((wd = ''WRITE_TRUNCATE'' \<or> wd = ''WRITE_APPEND'' \<or> wd = ''WRITE_EMPTY'' \<and> n = 0)
        \<and> file_exists (services wh) csv_file
        \<and> fst (create_dataset_if_not_exists (services wh) d)
        \<and> determine_schema (services wh) csv_file t schema auto = Some schema'
        \<and> rows_accepted wh csv_file (load_config wd schema' auto skip delim enc)
        \<and> get_table (services wh) (p, d, t)
        \<longrightarrow> returned_value outcome)"
proof -
  from run have o: "outcome = fst (load_artifact wh csv_file table_id wd schema auto skip delim enc)"
    and w: "wh' = snd (load_artifact wh csv_file table_id wd schema auto skip delim enc)"
    by simp_all
  have A: "\<forall>config \<in> set (submitted_jobs (snd (upload_csv_to_table env csv_file table_id wd schema auto skip delim enc))). write_disposition config = wd"
    using submitted_jobs_disposition by blast
  have B: "returned_value (fst (upload_csv_to_table env csv_file table_id wd schema auto skip delim enc)) \<longrightarrow>
        (\<exists>config. submitted_jobs (snd (upload_csv_to_table env csv_file table_id wd schema auto skip delim enc)) = [config]
           \<and> write_disposition config = wd
           \<and> load_table_from_file env csv_file (p, d, t) config = JobDone)"
    using upload_true_job_done [OF parts] by blast
  have C: "(wd = ''WRITE_EMPTY'' \<and> 0 < n \<longrightarrow> \<not> returned_value outcome \<and> table_rows wh' = table_rows wh)
   \<and> (wd = ''WRITE_TRUNCATE'' \<longrightarrow>
        table_rows wh' (p, d, t) = r \<or> \<not> returned_value outcome \<and> table_rows wh' = table_rows wh)
   \<and> (wd = ''WRITE_APPEND'' \<longrightarrow>
        table_rows wh' (p, d, t) = n + r \<or> \<not> returned_value outcome \<and> table_rows wh' = table_rows wh)
   \<and> (\<forall>table_ref. table_ref \<noteq> (p, d, t) \<longrightarrow> table_rows wh' table_ref = table_rows wh table_ref)
   \<and> ((wd = ''WRITE_TRUNCATE'' \<or> wd = ''WRITE_APPEND'' \<or> wd = ''WRITE_EMPTY'' \<and> n = 0)
        \<and> file_exists (services wh) csv_file
        \<and> fst (create_dataset_if_not_exists (services wh) d)
        \<and> determine_schema (services wh) csv_file t schema auto = Some schema'
        \<and> rows_accepted wh csv_file (load_config wd schema' auto skip delim enc)
        \<and> get_table (services wh) (p, d, t)
        \<longrightarrow> returned_value outcome)"
  proof (cases "file_exists (services wh) csv_file \<and> fst (create_dataset_if_not_exists (services wh) d)
                \<and> determine_schema (services wh) csv_file t schema auto \<noteq> None")
    case False
    then have no: "\<not> file_exists (services wh) csv_file
        \<or> \<not> fst (create_dataset_if_not_exists (services wh) d)
        \<or> determine_schema (services wh) csv_file t schema auto = None" by blast
    from load_artifact_not_submitted [OF parts no, of wd skip delim enc] o w
    have "table_rows wh' = table_rows wh" "\<not> returned_value outcome" by simp_all
    with False show ?thesis by auto
  next
    case True
    then obtain s' where ex: "file_exists (services wh) csv_file"
      and ds: "fst (create_dataset_if_not_exists (services wh) d)"
      and sc: "determine_schema (services wh) csv_file t schema auto = Some s'" by auto
    let ?j = "run_load_job (rows_accepted wh csv_file (load_config wd s' auto skip delim enc)) wd n r"
    from load_artifact_submitted [OF parts ex ds sc, of wd skip delim enc] o w n r
    have t: "table_rows wh' = (table_rows wh)((p, d, t) := snd ?j)"
      and v: "returned_value outcome = (fst ?j = JobDone \<and> get_table (services wh) (p, d, t))"
      by simp_all
    show ?thesis
      using t v n sc by (auto simp: run_load_job_def split: if_splits)
  qed
  from A B C show ?thesis by blast
qed

text \<open>Witness of C9: an artifact of three rows loaded into a table of five rows. Under
  \<^verbatim>\<open>WRITE_EMPTY\<close> the load fails and the row counts are unchanged; under \<^verbatim>\<open>WRITE_TRUNCATE\<close> the
  table has three rows afterwards, under \<^verbatim>\<open>WRITE_APPEND\<close> eight.\<close>

theorem write_disposition_semantics_witness:
  "split_on CHR ''.'' ''proj.optistock.sales'' = [''proj'', ''optistock'', ''sales'']
   \<and> table_rows demo_warehouse (''proj'', ''optistock'', ''sales'') = 5
   \<and> artifact_rows demo_warehouse ''factura_items.csv'' = 3
   \<and> \<not> returned_value (fst (load_artifact demo_warehouse ''factura_items.csv'' ''proj.optistock.sales''
          ''WRITE_EMPTY'' None True 1 '','' ''UTF-8''))
   \<and> table_rows (snd (load_artifact demo_warehouse ''factura_items.csv'' ''proj.optistock.sales''
          ''WRITE_EMPTY'' None True 1 '','' ''UTF-8'')) = table_rows demo_warehouse
   \<and> returned_value (fst (load_artifact demo_warehouse ''factura_items.csv'' ''proj.optistock.sales''
          ''WRITE_TRUNCATE'' None True 1 '','' ''UTF-8''))
   \<and> table_rows (snd (load_artifact demo_warehouse ''factura_items.csv'' ''proj.optistock.sales''
          ''WRITE_TRUNCATE'' None True 1 '','' ''UTF-8'')) (''proj'', ''optistock'', ''sales'') = 3
   \<and> returned_value (fst (load_artifact demo_warehouse ''factura_items.csv'' ''proj.optistock.sales''
          ''WRITE_APPEND'' None True 1 '','' ''UTF-8''))
   \<and> table_rows (snd (load_artifact demo_warehouse ''factura_items.csv'' ''proj.optistock.sales''
          ''WRITE_APPEND'' None True 1 '','' ''UTF-8'')) (''proj'', ''optistock'', ''sales'') = 8
   \<and> map write_disposition (submitted_jobs (snd (upload_csv_to_table demo_cloud ''factura_items.csv''
          ''proj.optistock.sales'' ''WRITE_TRUNCATE'' None True 1 '','' ''UTF-8''))) = [''WRITE_TRUNCATE'']"
proof -
  let ?sales = "(''proj'', ''optistock'', ''sales'')"
  let ?load = "\<lambda>wd. load_artifact demo_warehouse ''factura_items.csv'' ''proj.optistock.sales''
                       wd None True 1 '','' ''UTF-8''"
  have parts: "split_on CHR ''.'' ''proj.optistock.sales'' = [''proj'', ''optistock'', ''sales'']"
    by simp
  have n: "table_rows demo_warehouse ?sales = 5"
    and r: "artifact_rows demo_warehouse ''factura_items.csv'' = 3"
    by (simp_all add: demo_warehouse_def)
  have sc: "determine_schema (services demo_warehouse) ''factura_items.csv'' ''sales'' None True
              = Some (get_predefined_schema ''sales'')"
    by (simp add: determine_schema_def get_predefined_schema_def schemas_def lower_def lower_char_def)
  have pre: "file_exists (services demo_warehouse) ''factura_items.csv''"
      "fst (create_dataset_if_not_exists (services demo_warehouse) ''optistock'')"
      "get_table (services demo_warehouse) ?sales"
      "\<And>config. rows_accepted demo_warehouse ''factura_items.csv'' config"
    by (simp_all add: demo_warehouse_def demo_cloud_def create_dataset_if_not_exists_def)
  have run: "\<And>wd. ?load wd = (fst (?load wd), snd (?load wd))" by simp
  note e = write_disposition_semantics [OF parts run [of "''WRITE_EMPTY''"] n r,
      where env = demo_cloud and schema' = "get_predefined_schema ''sales''"]
  note t = write_disposition_semantics [OF parts run [of "''WRITE_TRUNCATE''"] n r,
      where env = demo_cloud and schema' = "get_predefined_schema ''sales''"]
  note a = write_disposition_semantics [OF parts run [of "''WRITE_APPEND''"] n r,
      where env = demo_cloud and schema' = "get_predefined_schema ''sales''"]
  from e have e': "\<not> returned_value (fst (?load ''WRITE_EMPTY''))"
      "table_rows (snd (?load ''WRITE_EMPTY'')) = table_rows demo_warehouse" by simp_all
  from t sc pre have t1: "returned_value (fst (?load ''WRITE_TRUNCATE''))" by simp
  with t have t2: "table_rows (snd (?load ''WRITE_TRUNCATE'')) ?sales = 3" by simp
  from a sc pre have a1: "returned_value (fst (?load ''WRITE_APPEND''))" by simp
  with a have a2: "table_rows (snd (?load ''WRITE_APPEND'')) ?sales = 8" by simp
  from t t1 have "returned_value (fst (upload_csv_to_table demo_cloud ''factura_items.csv''
          ''proj.optistock.sales'' ''WRITE_TRUNCATE'' None True 1 '','' ''UTF-8'')) \<longrightarrow>
      map write_disposition (submitted_jobs (snd (upload_csv_to_table demo_cloud ''factura_items.csv''
          ''proj.optistock.sales'' ''WRITE_TRUNCATE'' None True 1 '','' ''UTF-8''))) = [''WRITE_TRUNCATE'']"
    by auto
  moreover have "returned_value (fst (upload_csv_to_table demo_cloud ''factura_items.csv''
          ''proj.optistock.sales'' ''WRITE_TRUNCATE'' None True 1 '','' ''UTF-8''))"
    by (simp add: upload_csv_to_table_def demo_cloud_def create_dataset_if_not_exists_def
        determine_schema_def get_predefined_schema_def schemas_def lower_def lower_char_def
        returned_value_def Let_def)
  ultimately have j: "map write_disposition (submitted_jobs (snd (upload_csv_to_table demo_cloud
          ''factura_items.csv'' ''proj.optistock.sales'' ''WRITE_TRUNCATE'' None True 1 '','' ''UTF-8'')))
        = [''WRITE_TRUNCATE'']" by blast
  from parts n r e' t1 t2 a1 a2 j show ?thesis by blast
qed

end
